theory Spec2Isabelle
  imports Main
begin

section \<open>On-demand loaders: a model of \<open>nodes.py\<close>\<close>

text \<open>
  The three node classes of \<open>nodes.py\<close> resolve a logical name to a URL through the
  configuration table, choose a bearer token, issue one streaming HTTP GET, take the
  file name from the \<open>Content-Disposition\<close> header, write the body to the models
  directory unless a file of that name is already there, and hand the file name to a
  loader of the host. The model below follows the source statement by statement.
  Strings are byte lists: header values reach the code decoded as ISO-8859-1, so one
  \<open>char\<close> is one code point below 256.
\<close>

subsection \<open>Python strings\<close>

text \<open>\<open>s.startswith(p)\<close>.\<close>

definition startswith :: "string \<Rightarrow> string \<Rightarrow> bool" where
  "startswith s p = (take (length p) s = p)"

text \<open>
  \<open>str.isspace\<close> on one character, for the code points below 256: the ASCII
  controls 9 to 13 and 28 to 31, the space, NEL (0x85) and the no-break space (0xA0).
\<close>

definition py_isspace :: "char \<Rightarrow> bool" where
  "py_isspace c = (c \<in> set [CHR 0x09, CHR 0x0A, CHR 0x0B, CHR 0x0C, CHR 0x0D,
                             CHR 0x1C, CHR 0x1D, CHR 0x1E, CHR 0x1F, CHR 0x20,
                             CHR 0x85, CHR 0xA0])"

text \<open>\<open>s.strip()\<close>: leading and trailing whitespace removed.\<close>

definition py_strip :: "string \<Rightarrow> string" where
  "py_strip s = rev (dropWhile py_isspace (rev (dropWhile py_isspace s)))"

subsection \<open>The file name of a response\<close>

text \<open>The double quote, which an inner string literal cannot hold.\<close>

definition dquote :: char where
  "dquote = CHR 0x22"

text \<open>
  The pattern \<open>filename="?([^"]+)"?\<close> tried at the start of a string; the result is
  group 1. After the literal \<open>filename=\<close> the optional quote is greedy: when a quote
  is there it is consumed, and group 1 is the longest run of non-quote characters after
  it. When that run is empty the matcher backtracks to the empty match of the optional
  quote, where the class \<open>[^"]\<close> meets the quote and fails. Without a leading quote
  group 1 is the longest run of non-quote characters, which must not be empty. The
  trailing optional quote always matches, so the greedy run is never shortened.
\<close>

definition match_filename :: "string \<Rightarrow> string option" where
  "match_filename s =
     (if startswith s ''filename='' then
        (case drop 9 s of
           [] \<Rightarrow> None
         | c # r \<Rightarrow>
             if c = dquote then
               (let g = takeWhile (\<lambda>x. x \<noteq> dquote) r in if g = [] then None else Some g)
             else Some (takeWhile (\<lambda>x. x \<noteq> dquote) (c # r)))
      else None)"

text \<open>\<open>re.search\<close>: the match at the leftmost position where the pattern matches.\<close>

fun re_search_filename :: "string \<Rightarrow> string option" where
  "re_search_filename [] = None"
| "re_search_filename (c # cs) =
     (case match_filename (c # cs) of
        Some g \<Rightarrow> Some g
      | None \<Rightarrow> re_search_filename cs)"

text \<open>
  Lines 116 to 122 of \<open>download_lora\<close> (and the same lines of the two other loaders):
  the file name starts as \<open>None\<close>; a header that is absent or empty leaves it so, as
  does a header the pattern does not match; otherwise it is group 1, stripped.
\<close>

definition derive_filename :: "string option \<Rightarrow> string option" where
  "derive_filename content_disposition =
     (case content_disposition of
        None \<Rightarrow> None
      | Some cd \<Rightarrow>
          if cd = [] then None
          else (case re_search_filename cd of
                  None \<Rightarrow> None
                | Some g \<Rightarrow> Some (py_strip g)))"

text \<open>A string between single quotes, as the messages of the source have them.\<close>

definition quoted :: "string \<Rightarrow> string" where
  "quoted s = [CHR 0x27] @ s @ [CHR 0x27]"

subsection \<open>Exceptions, results, the log\<close>

text \<open>
  The exceptions the code meets, each with the text \<open>str(e)\<close> that the handlers put
  into the log. All of them are subclasses of \<open>Exception\<close>. \<open>HTTPError\<close> is what
  \<open>raise_for_status\<close> raises; \<open>RequestException\<close> stands for every other class of
  \<open>requests.exceptions\<close> (connection and chunked-encoding errors, time-outs, a URL
  without a scheme); \<open>OtherException\<close> is any further subclass of \<open>Exception\<close>.
\<close>

datatype py_exception =
    FileNotFoundError string
  | JSONDecodeError string
  | HTTPError string
  | RequestException string
  | TypeError string
  | ValueError string
  | KeyError string
  | OSError string
  | OtherException string

fun exn_str :: "py_exception \<Rightarrow> string" where
  "exn_str (FileNotFoundError m) = m"
| "exn_str (JSONDecodeError m) = m"
| "exn_str (HTTPError m) = m"
| "exn_str (RequestException m) = m"
| "exn_str (TypeError m) = m"
| "exn_str (ValueError m) = m"
| "exn_str (KeyError m) = m"
| "exn_str (OSError m) = m"
| "exn_str (OtherException m) = m"

text \<open>\<open>isinstance(e, requests.exceptions.RequestException)\<close>.\<close>

fun is_request_exception :: "py_exception \<Rightarrow> bool" where
  "is_request_exception (HTTPError m) = True"
| "is_request_exception (RequestException m) = True"
| "is_request_exception e = False"

text \<open>What a call does: it returns a value or an exception leaves it.\<close>

datatype 'a outcome = Returned 'a | Raised py_exception

datatype level = INFO | WARNING | ERROR

type_synonym log_entry = "level \<times> string"

subsection \<open>The configuration table\<close>

record config_entry =
  name :: string
  url :: string

text \<open>
  The table as the documented file has it: a JSON object whose keys hold lists of
  \<open>{name, url}\<close> records. A key may be missing; \<open>NODE_CONFIG[k]\<close> then raises
  \<open>KeyError\<close>.
\<close>

type_synonym config = "string \<rightharpoonup> config_entry list"

definition default_config :: config where
  "default_config =
     [''loras'' \<mapsto> [\<lparr>name = ''Lora n1'', url = ''not_valid_url''\<rparr>,
                     \<lparr>name = ''Lora n2'', url = ''not_valid_url''\<rparr>]]"

text \<open>
  \<open>load_config\<close>. The argument \<open>read_json\<close> is the outcome of opening the file at
  \<open>config_path\<close> and of \<open>json.load\<close> on it: the parsed table, or the exception either
  of them raised. The result is the returned table and the lines logged.
\<close>

definition load_config ::
  "string \<Rightarrow> string \<Rightarrow> (py_exception + config) \<Rightarrow> config outcome \<times> log_entry list" where
  "load_config config_filename config_path read_json =
     (case read_json of
        Inr config \<Rightarrow>
          (Returned config,
           [(INFO, ''Successfully loaded configuration from '' @ config_filename)])
      | Inl (FileNotFoundError m) \<Rightarrow>
          (Returned default_config,
           [(WARNING, ''Configuration file '' @ quoted config_path @
                      '' not found. Using default fallback configuration.'')])
      | Inl (JSONDecodeError m) \<Rightarrow>
          (Returned default_config,
           [(ERROR, ''Error decoding JSON from '' @ quoted config_path @
                    ''. Using default fallback configuration.'')])
      | Inl e \<Rightarrow>
          (Returned default_config,
           [(ERROR, ''An unexpected error occurred while loading '' @ quoted config_path @
                    '': '' @ exn_str e @
                    ''. Using default fallback.'')]))"

subsection \<open>The world outside the program\<close>

text \<open>
  A response of \<open>requests.get\<close>: its status code, the message that
  \<open>raise_for_status\<close> builds from status, reason and URL, the lookup
  \<open>response.headers.get\<close>, and \<open>iter_content\<close>, which for a block size yields the
  chunks of the body in order and, when the stream breaks, ends with an exception.
\<close>

record response =
  status_code :: int
  http_error_msg :: string
  headers :: "string \<rightharpoonup> string"
  iter_content :: "int \<Rightarrow> string list \<times> py_exception option"

text \<open>\<open>Response.raise_for_status\<close> of the HTTP library: statuses 400 to 599 raise.\<close>

definition raise_for_status :: "response \<Rightarrow> py_exception option" where
  "raise_for_status r =
     (if 400 \<le> status_code r \<and> status_code r < 600
      then Some (HTTPError (http_error_msg r)) else None)"

type_synonym request = "string \<times> (string \<times> string) list option"

text \<open>
  What the program calls and does not define: the process environment, the models
  directory of the host, \<open>os.path.join\<close> on two strings, whether \<open>os.makedirs\<close>,
  \<open>open(path, 'wb')\<close> and \<open>f.write\<close> fail, the built-in \<open>int\<close> on a header value, and
  the network. \<open>http_get\<close> answers a request given the requests made before it, so a
  server may answer the same request differently the second time.
\<close>

record env =
  environ :: "string \<rightharpoonup> string"
  models_dir :: string
  path_join :: "string \<Rightarrow> string \<Rightarrow> string"
  makedirs_error :: "string \<Rightarrow> py_exception option"
  open_error :: "string \<Rightarrow> py_exception option"
  write_error :: "string \<Rightarrow> string \<Rightarrow> py_exception option"
  py_int :: "string \<Rightarrow> py_exception + int"
  http_get :: "request list \<Rightarrow> string \<Rightarrow> (string \<times> string) list option
                 \<Rightarrow> py_exception + response"

text \<open>
  What the program changes: the files written (path to contents), the directories
  made, the lines logged, and the calls of \<open>requests.get\<close> (URL and headers), each
  list in order.
\<close>

record world =
  files :: "string \<rightharpoonup> string"
  dirs :: "string set"
  logged :: "log_entry list"
  gets :: "request list"

definition log_msg :: "level \<Rightarrow> string \<Rightarrow> world \<Rightarrow> world" where
  "log_msg lvl msg w = w\<lparr>logged := logged w @ [(lvl, msg)]\<rparr>"

text \<open>\<open>os.path.exists\<close>.\<close>

definition path_exists :: "world \<Rightarrow> string \<Rightarrow> bool" where
  "path_exists w p = (files w p \<noteq> None \<or> p \<in> dirs w)"

text \<open>\<open>os.makedirs(d, exist_ok=True)\<close>.\<close>

definition makedirs :: "env \<Rightarrow> world \<Rightarrow> string \<Rightarrow> py_exception + world" where
  "makedirs e w d =
     (case makedirs_error e d of
        Some x \<Rightarrow> Inl x
      | None \<Rightarrow> Inr (w\<lparr>dirs := insert d (dirs w)\<rparr>))"

subsection \<open>The steps the three loaders share\<close>

text \<open>
  The search loop: \<open>url = None\<close>, then the first record whose name equals the logical
  name gives its URL and ends the loop.
\<close>

fun resolve_url :: "config_entry list \<Rightarrow> string \<Rightarrow> string option" where
  "resolve_url [] nm = None"
| "resolve_url (x # xs) nm = (if name x = nm then Some (url x) else resolve_url xs nm)"

text \<open>Truth of an optional string: \<open>None\<close> and the empty string are false.\<close>

fun truthy :: "string option \<Rightarrow> bool" where
  "truthy None = False"
| "truthy (Some s) = (s \<noteq> [])"

text \<open>\<open>a or b\<close>.\<close>

definition py_or :: "string option \<Rightarrow> string option \<Rightarrow> string option" where
  "py_or a b = (if truthy a then a else b)"

text \<open>The two \<open>startswith\<close> tests that replace \<open>api_key\<close>, in the order of the source.\<close>

definition select_api_key ::
  "(string \<rightharpoonup> string) \<Rightarrow> string \<Rightarrow> string option \<Rightarrow> string option" where
  "select_api_key environment u api_key =
     (let k1 = (if startswith u ''https://civitai.com''
                then py_or api_key (environment ''CIVITAI_TOKEN'') else api_key);
          k2 = (if startswith u ''https://huggingface.co''
                then py_or k1 (environment ''HUGGINGFACE_TOKEN'') else k1)
      in k2)"

text \<open>\<open>headers = None\<close>, replaced by the Authorization header when the key is true.\<close>

definition auth_headers :: "string option \<Rightarrow> (string \<times> string) list option" where
  "auth_headers api_key =
     (case api_key of
        None \<Rightarrow> None
      | Some k \<Rightarrow> if k = [] then None else Some [(''Authorization'', ''Bearer '' @ k)])"

text \<open>The line logged in the same branch.\<close>

definition log_api_key :: "string option \<Rightarrow> world \<Rightarrow> world" where
  "log_api_key api_key w = (if truthy api_key then log_msg INFO ''Using provided API key'' w else w)"

text \<open>
  \<open>requests.get(url, stream=True, allow_redirects=True, headers=headers)\<close>: the
  request is recorded, then the network answers or raises.
\<close>

definition requests_get ::
  "env \<Rightarrow> world \<Rightarrow> string \<Rightarrow> (string \<times> string) list option
     \<Rightarrow> (py_exception + response) \<times> world" where
  "requests_get e w u hs = (http_get e (gets w) u hs, w\<lparr>gets := gets w @ [(u, hs)]\<rparr>)"

text \<open>
  The write loop: each chunk is appended to the open file; the first write that fails
  ends the loop with its exception.
\<close>

fun write_chunks ::
  "env \<Rightarrow> string \<Rightarrow> string list \<Rightarrow> world \<Rightarrow> py_exception option \<times> world" where
  "write_chunks e p [] w = (None, w)"
| "write_chunks e p (d # ds) w =
     (case write_error e p d of
        Some x \<Rightarrow> (Some x, w)
      | None \<Rightarrow>
          write_chunks e p ds
            (w\<lparr>files := (files w)(p \<mapsto> (case files w p of None \<Rightarrow> [] | Some c \<Rightarrow> c) @ d)\<rparr>))"

text \<open>
  The body of the \<open>try\<close> statement up to \<open>progress_bar.close()\<close>: the content length
  is parsed (0 when the header is absent), the block size is computed (a
  \<open>download_chunks\<close> of \<open>None\<close> raises \<open>TypeError\<close>), the file is opened for writing,
  which creates or empties it, and the chunks are written. The result is the exception
  raised, if any, and the world then. The progress bar only prints and is left out.
\<close>

definition stream_to_file ::
  "env \<Rightarrow> world \<Rightarrow> string \<Rightarrow> response \<Rightarrow> int option \<Rightarrow> py_exception option \<times> world" where
  "stream_to_file e w p r download_chunks =
     (case (case headers r ''content-length'' of None \<Rightarrow> Inr 0 | Some s \<Rightarrow> py_int e s) of
        Inl x \<Rightarrow> (Some x, w)
      | Inr total_size \<Rightarrow>
          (case download_chunks of
             None \<Rightarrow>
               (Some (TypeError (''unsupported operand type(s) for *: '' @ quoted ''NoneType'' @
                                 '' and '' @ quoted ''int'')), w)
           | Some n \<Rightarrow>
               let block_size = n * 1024 in
               (case open_error e p of
                  Some x \<Rightarrow> (Some x, w)
                | None \<Rightarrow>
                    let w1 = w\<lparr>files := (files w)(p \<mapsto> [])\<rparr>;
                        (chunks, broken) = iter_content r block_size;
                        (failed, w2) = write_chunks e p chunks w1
                    in (case failed of
                          Some x \<Rightarrow> (Some x, w2)
                        | None \<Rightarrow> (broken, w2)))))"

subsection \<open>The three loaders\<close>

text \<open>
  \<open>OnDemandLoraLoader.download_lora\<close>. \<open>NODE_CONFIG\<close> is the table loaded when the
  module was imported; \<open>load_lora\<close> is \<open>LoraLoader.load_lora\<close> of the host, which reads
  the files and returns the patched pair or raises. The result is what the call
  returns or raises, and the world after it. Where the source has an early \<open>return\<close>
  inside the \<open>try\<close> statement, the flag \<open>aborted\<close> is set.
\<close>

definition download_lora ::
  "env \<Rightarrow> config
     \<Rightarrow> ((string \<rightharpoonup> string) \<Rightarrow> 'm \<Rightarrow> 'c \<Rightarrow> string \<Rightarrow> 'f \<Rightarrow> 'f \<Rightarrow> py_exception + 'm \<times> 'c)
     \<Rightarrow> world \<Rightarrow> 'm \<Rightarrow> string \<Rightarrow> 'f \<Rightarrow> 'f \<Rightarrow> 'c \<Rightarrow> string option \<Rightarrow> int option
     \<Rightarrow> ('m \<times> 'c) outcome \<times> world" where
  "download_lora e NODE_CONFIG load_lora w model lora_name strength_model strength_clip clip
     api_key download_chunks =
   (let loras_models_dir = path_join e (models_dir e) ''loras'' in
    (case makedirs e w loras_models_dir of
       Inl x \<Rightarrow> (Raised x, w)
     | Inr w1 \<Rightarrow>
     (case NODE_CONFIG ''loras'' of
        None \<Rightarrow> (Raised (KeyError (quoted ''loras'')), w1)
      | Some records \<Rightarrow>
      let lora_url = resolve_url records lora_name in
      (case (if truthy lora_url then lora_url else None) of
         None \<Rightarrow>
           (Returned (model, clip),
            log_msg ERROR (''Lora URL not found for name: '' @ lora_name) w1)
       | Some u \<Rightarrow>
       let api_key1 = select_api_key (environ e) u api_key;
           hs = auth_headers api_key1;
           w2 = log_api_key api_key1 w1;
           (got, w3) = requests_get e w2 u hs
       in
       (case got of
          Inl x \<Rightarrow> (Raised x, w3)
        | Inr resp \<Rightarrow>
        (case raise_for_status resp of
           Some x \<Rightarrow> (Raised x, w3)
         | None \<Rightarrow>
         (case derive_filename (headers resp ''Content-Disposition'') of
            None \<Rightarrow>
              (Raised (TypeError ''expected str, bytes or os.PathLike object, not NoneType''),
               w3)
          | Some lora_filename \<Rightarrow>
          let lora_filepath = path_join e loras_models_dir lora_filename;
              (aborted, w4) =
                (if path_exists w3 lora_filepath then
                   (False,
                    log_msg INFO
                      (''LORA file '' @ quoted lora_filename @ '' already exists at '' @
                       quoted lora_filepath @ ''. Skipping download.'') w3)
                 else
                   let w5 = log_msg INFO
                              (''Downloading LORA '' @ quoted lora_filename @ '' from '' @
                               quoted u @ '' to '' @ quoted lora_filepath) w3;
                       (failed, w6) = stream_to_file e w5 lora_filepath resp download_chunks
                   in (case failed of
                         None \<Rightarrow>
                           (False,
                            log_msg INFO
                              (''Successfully downloaded '' @ quoted lora_name @ ''.'') w6)
                       | Some x \<Rightarrow>
                           if is_request_exception x then
                             (True,
                              log_msg ERROR
                                (''Error downloading LORA '' @ quoted lora_name @ '': '' @
                                 exn_str x) w6)
                           else
                             (True,
                              log_msg ERROR
                                (''An unexpected error occurred during download of '' @
                                 quoted lora_name @ '': '' @ exn_str x) w6)))
          in
          if aborted then (Returned (model, clip), w4)
          else (case load_lora (files w4) model clip lora_filename strength_model
                       strength_clip of
                  Inl x \<Rightarrow> (Raised x, w4)
                | Inr out \<Rightarrow> (Returned out, w4)))))))))"

text \<open>
  \<open>OnDemandUNETLoader.download_unet\<close>, with \<open>UNETLoader.load_unet\<close> of the host. A
  returned \<open>None\<close> is Python's \<open>None\<close>.
\<close>

definition download_unet ::
  "env \<Rightarrow> config
     \<Rightarrow> ((string \<rightharpoonup> string) \<Rightarrow> string \<Rightarrow> string \<Rightarrow> py_exception + 'u)
     \<Rightarrow> world \<Rightarrow> string \<Rightarrow> string \<Rightarrow> string option \<Rightarrow> int option
     \<Rightarrow> 'u option outcome \<times> world" where
  "download_unet e NODE_CONFIG load_unet w unet_name weight_dtype api_key download_chunks =
   (let diffusion_models_dir = path_join e (models_dir e) ''diffusion_models'' in
    (case makedirs e w diffusion_models_dir of
       Inl x \<Rightarrow> (Raised x, w)
     | Inr w1 \<Rightarrow>
     (case NODE_CONFIG ''diffusion_models'' of
        None \<Rightarrow> (Raised (KeyError (quoted ''diffusion_models'')), w1)
      | Some records \<Rightarrow>
      let model_url = resolve_url records unet_name in
      (case (if truthy model_url then model_url else None) of
         None \<Rightarrow>
           (Returned None,
            log_msg ERROR (''Model URL not found for name: '' @ unet_name) w1)
       | Some u \<Rightarrow>
       let api_key1 = select_api_key (environ e) u api_key;
           hs = auth_headers api_key1;
           w2 = log_api_key api_key1 w1;
           (got, w3) = requests_get e w2 u hs
       in
       (case got of
          Inl x \<Rightarrow> (Raised x, w3)
        | Inr resp \<Rightarrow>
        (case raise_for_status resp of
           Some x \<Rightarrow> (Raised x, w3)
         | None \<Rightarrow>
         (case derive_filename (headers resp ''Content-Disposition'') of
            None \<Rightarrow>
              (Raised (TypeError ''expected str, bytes or os.PathLike object, not NoneType''),
               w3)
          | Some model_filename \<Rightarrow>
          let model_filepath = path_join e diffusion_models_dir model_filename;
              (aborted, w4) =
                (if path_exists w3 model_filepath then
                   (False,
                    log_msg INFO
                      (''Model file '' @ quoted model_filename @ '' already exists at '' @
                       quoted model_filepath @ ''. Skipping download.'') w3)
                 else
                   let w5 = log_msg INFO
                              (''Downloading Model '' @ quoted model_filename @ '' from '' @
                               quoted u @ '' to '' @ quoted model_filepath) w3;
                       (failed, w6) = stream_to_file e w5 model_filepath resp download_chunks
                   in (case failed of
                         None \<Rightarrow>
                           (False,
                            log_msg INFO
                              (''Successfully downloaded '' @ quoted unet_name @ ''.'') w6)
                       | Some x \<Rightarrow>
                           if is_request_exception x then
                             (True,
                              log_msg ERROR
                                (''Error downloading Model '' @ quoted unet_name @ '': '' @
                                 exn_str x) w6)
                           else
                             (True,
                              log_msg ERROR
                                (''An unexpected error occurred during download of '' @
                                 quoted unet_name @ '': '' @ exn_str x) w6)))
          in
          if aborted then (Returned None, w4)
          else (case load_unet (files w4) model_filename weight_dtype of
                  Inl x \<Rightarrow> (Raised x, w4)
                | Inr out \<Rightarrow> (Returned (Some out), w4)))))))))"

text \<open>
  \<open>OnDemandCheckpointLoader.download_checkpoint\<close>, with
  \<open>CheckpointLoaderSimple.load_checkpoint\<close> of the host.
\<close>

definition download_checkpoint ::
  "env \<Rightarrow> config
     \<Rightarrow> ((string \<rightharpoonup> string) \<Rightarrow> string \<Rightarrow> py_exception + 'k)
     \<Rightarrow> world \<Rightarrow> string \<Rightarrow> string option \<Rightarrow> int option
     \<Rightarrow> 'k option outcome \<times> world" where
  "download_checkpoint e NODE_CONFIG load_checkpoint w ckpt_name api_key download_chunks =
   (let checkpoint_models_dir = path_join e (models_dir e) ''checkpoints'' in
    (case makedirs e w checkpoint_models_dir of
       Inl x \<Rightarrow> (Raised x, w)
     | Inr w1 \<Rightarrow>
     (case NODE_CONFIG ''checkpoints'' of
        None \<Rightarrow> (Raised (KeyError (quoted ''checkpoints'')), w1)
      | Some records \<Rightarrow>
      let model_url = resolve_url records ckpt_name in
      (case (if truthy model_url then model_url else None) of
         None \<Rightarrow>
           (Returned None,
            log_msg ERROR (''Model URL not found for name: '' @ ckpt_name) w1)
       | Some u \<Rightarrow>
       let api_key1 = select_api_key (environ e) u api_key;
           hs = auth_headers api_key1;
           w2 = log_api_key api_key1 w1;
           (got, w3) = requests_get e w2 u hs
       in
       (case got of
          Inl x \<Rightarrow> (Raised x, w3)
        | Inr resp \<Rightarrow>
        (case raise_for_status resp of
           Some x \<Rightarrow> (Raised x, w3)
         | None \<Rightarrow>
         (case derive_filename (headers resp ''Content-Disposition'') of
            None \<Rightarrow>
              (Raised (TypeError ''expected str, bytes or os.PathLike object, not NoneType''),
               w3)
          | Some model_filename \<Rightarrow>
          let model_filepath = path_join e checkpoint_models_dir model_filename;
              (aborted, w4) =
                (if path_exists w3 model_filepath then
                   (False,
                    log_msg INFO
                      (''Checkpoint file '' @ quoted model_filename @ '' already exists at '' @
                       quoted model_filepath @ ''. Skipping download.'') w3)
                 else
                   let w5 = log_msg INFO
                              (''Downloading checkpoint '' @ quoted model_filename @ '' from '' @
                               quoted u @ '' to '' @ quoted model_filepath) w3;
                       (failed, w6) = stream_to_file e w5 model_filepath resp download_chunks
                   in (case failed of
                         None \<Rightarrow>
                           (False,
                            log_msg INFO
                              (''Successfully downloaded checkpoint '' @ quoted ckpt_name @ ''.'') w6)
                       | Some x \<Rightarrow>
                           if is_request_exception x then
                             (True,
                              log_msg ERROR
                                (''Error downloading checkpoint '' @ quoted ckpt_name @ '': '' @
                                 exn_str x) w6)
                           else
                             (True,
                              log_msg ERROR
                                (''An unexpected error occurred during download of '' @
                                 quoted ckpt_name @ '': '' @ exn_str x) w6)))
          in
          if aborted then (Returned None, w4)
          else (case load_checkpoint (files w4) model_filename of
                  Inl x \<Rightarrow> (Raised x, w4)
                | Inr out \<Rightarrow> (Returned (Some out), w4)))))))))"

subsection \<open>A concrete installation\<close>

text \<open>
  One server, one table and one empty models directory, on which the theorems below
  are run. The server knows four URLs: a model that downloads, a model that is gone
  (status 404), a response without \<open>Content-Disposition\<close>, and a body that breaks
  after its first chunk. \<open>requests.get\<close> on the placeholder \<open>not_valid_url\<close> raises
  \<open>MissingSchema\<close>, a \<open>RequestException\<close>, before anything is sent.
\<close>

definition example_ok_response :: response where
  "example_ok_response =
     \<lparr>status_code = 200, http_error_msg = [],
      headers = [''Content-Disposition'' \<mapsto>
                   ''attachment; filename='' @ [dquote] @ ''foo.safetensors'' @ [dquote],
                 ''content-length'' \<mapsto> ''6''],
      iter_content = (\<lambda>n. ([''abc'', ''def''], None))\<rparr>"

definition example_404_response :: response where
  "example_404_response =
     \<lparr>status_code = 404, http_error_msg = ''404 Client Error: Not Found'',
      headers = Map.empty, iter_content = (\<lambda>n. ([], None))\<rparr>"

definition example_bare_response :: response where
  "example_bare_response =
     \<lparr>status_code = 200, http_error_msg = [],
      headers = Map.empty, iter_content = (\<lambda>n. ([''abc''], None))\<rparr>"

definition example_broken_response :: response where
  "example_broken_response =
     \<lparr>status_code = 200, http_error_msg = [],
      headers = [''Content-Disposition'' \<mapsto> ''attachment; filename=cut.safetensors''],
      iter_content = (\<lambda>n. ([''abc''], Some (RequestException ''Connection broken'')))\<rparr>"

definition example_server ::
  "request list \<Rightarrow> string \<Rightarrow> (string \<times> string) list option \<Rightarrow> py_exception + response" where
  "example_server history u hs =
     (if u = ''https://civitai.com/ok'' then Inr example_ok_response
      else if u = ''https://civitai.com/gone'' then Inr example_404_response
      else if u = ''https://huggingface.co/bare'' then Inr example_bare_response
      else if u = ''https://huggingface.co/broken'' then Inr example_broken_response
      else if u = ''not_valid_url'' then
        Inl (RequestException (''Invalid URL '' @ quoted u @ '': No scheme supplied.''))
      else Inl (RequestException ''Connection refused''))"

definition example_env :: env where
  "example_env =
     \<lparr>environ = [''CIVITAI_TOKEN'' \<mapsto> ''envtok''],
      models_dir = ''/models'',
      path_join = (\<lambda>a b. a @ ''/'' @ b),
      makedirs_error = (\<lambda>d. None),
      open_error = (\<lambda>p. None),
      write_error = (\<lambda>p d. None),
      py_int = (\<lambda>s. if s = ''6'' then Inr 6 else Inl (ValueError ''invalid literal'')),
      http_get = example_server\<rparr>"

definition example_records :: "config_entry list" where
  "example_records =
     [\<lparr>name = ''ok'', url = ''https://civitai.com/ok''\<rparr>,
      \<lparr>name = ''gone'', url = ''https://civitai.com/gone''\<rparr>,
      \<lparr>name = ''bare'', url = ''https://huggingface.co/bare''\<rparr>,
      \<lparr>name = ''broken'', url = ''https://huggingface.co/broken''\<rparr>,
      \<lparr>name = ''ok'', url = ''https://civitai.com/other''\<rparr>]"

definition example_config :: config where
  "example_config =
     [''loras'' \<mapsto> example_records,
      ''diffusion_models'' \<mapsto> example_records,
      ''checkpoints'' \<mapsto> example_records]"

text \<open>A table whose URL is on the CivitAI host but is written with \<open>http://\<close>.\<close>

definition example_plain_config :: config where
  "example_plain_config =
     [''loras'' \<mapsto> [\<lparr>name = ''plain'', url = ''http://civitai.com/ok''\<rparr>]]"

definition example_world :: world where
  "example_world = \<lparr>files = Map.empty, dirs = {}, logged = [], gets = []\<rparr>"

definition example_cached_world :: world where
  "example_cached_world =
     \<lparr>files = [''/models/loras/foo.safetensors'' \<mapsto> ''abcdef''],
      dirs = {''/models/loras''}, logged = [], gets = []\<rparr>"

text \<open>Loaders of the host that change what they are given, so a pass-through shows.\<close>

definition example_load_lora ::
  "(string \<rightharpoonup> string) \<Rightarrow> nat \<Rightarrow> nat \<Rightarrow> string \<Rightarrow> nat \<Rightarrow> nat \<Rightarrow> py_exception + nat \<times> nat" where
  "example_load_lora fs m c f s1 s2 = Inr (m + s1, c + s2)"

definition example_load_unet ::
  "(string \<rightharpoonup> string) \<Rightarrow> string \<Rightarrow> string \<Rightarrow> py_exception + nat" where
  "example_load_unet fs f wd = Inr (length f)"

definition example_load_checkpoint ::
  "(string \<rightharpoonup> string) \<Rightarrow> string \<Rightarrow> py_exception + nat" where
  "example_load_checkpoint fs f = Inr (length f)"

section \<open>Properties\<close>

subsection \<open>Auxiliary facts\<close>

lemmas example_defs =
  example_env_def example_server_def example_config_def example_records_def
  example_world_def example_cached_world_def example_load_lora_def example_load_unet_def
  example_load_checkpoint_def example_ok_response_def example_404_response_def
  example_bare_response_def example_broken_response_def

lemma civitai_not_hf:
  "startswith u ''https://civitai.com'' \<Longrightarrow> \<not> startswith u ''https://huggingface.co''"
  by (auto simp: startswith_def dest!: arg_cong[where f="\<lambda>xs. xs ! 8"])

lemma resolve_url_absent: "nm \<notin> name ` set records \<Longrightarrow> resolve_url records nm = None"
  by (induction records) auto


lemma lora_absent:
  assumes "makedirs_error e (path_join e (models_dir e) ''loras'') = None"
    and "NODE_CONFIG ''loras'' = Some records"
    and "nm \<notin> name ` set records"
  shows "download_lora e NODE_CONFIG ld w m nm s1 s2 c k dc =
     (Returned (m, c),
      log_msg ERROR (''Lora URL not found for name: '' @ nm)
        (w\<lparr>dirs := insert (path_join e (models_dir e) ''loras'') (dirs w)\<rparr>))"
  using assms by (simp add: download_lora_def makedirs_def resolve_url_absent)


lemma log_msg_fields:
  "files (log_msg l t w) = files w" "dirs (log_msg l t w) = dirs w"
  "gets (log_msg l t w) = gets w" "logged (log_msg l t w) = logged w @ [(l, t)]"
  by (simp_all add: log_msg_def)

lemma log_api_key_fields:
  "files (log_api_key k w) = files w" "dirs (log_api_key k w) = dirs w"
  "gets (log_api_key k w) = gets w"
  by (simp_all add: log_api_key_def log_msg_fields)

lemma path_exists_simps:
  "path_exists (log_msg l t w) p = path_exists w p"
  "path_exists (log_api_key k w) p = path_exists w p"
  "path_exists (w\<lparr>gets := g\<rparr>) p = path_exists w p"
  by (simp_all add: path_exists_def log_msg_fields log_api_key_fields)

lemma lora_http_error:
  assumes "makedirs_error e (path_join e (models_dir e) ''loras'') = None"
    and "NODE_CONFIG ''loras'' = Some records"
    and "resolve_url records nm = Some u" and "u \<noteq> []"
    and "http_get e (gets w) u (auth_headers (select_api_key (environ e) u k)) = Inr resp"
    and "400 \<le> status_code resp" and "status_code resp < 600"
  shows "download_lora e NODE_CONFIG ld w m nm s1 s2 c k dc =
    (Raised (HTTPError (http_error_msg resp)),
     (log_api_key (select_api_key (environ e) u k)
        (w\<lparr>dirs := insert (path_join e (models_dir e) ''loras'') (dirs w)\<rparr>))
      \<lparr>gets := gets w @ [(u, auth_headers (select_api_key (environ e) u k))]\<rparr>)"
  using assms by (simp add: download_lora_def makedirs_def requests_get_def raise_for_status_def
       log_api_key_fields Let_def)

lemma lora_no_filename:
  assumes "makedirs_error e (path_join e (models_dir e) ''loras'') = None"
    and "NODE_CONFIG ''loras'' = Some records"
    and "resolve_url records nm = Some u" and "u \<noteq> []"
    and "http_get e (gets w) u (auth_headers (select_api_key (environ e) u k)) = Inr resp"
    and "raise_for_status resp = None"
    and "derive_filename (headers resp ''Content-Disposition'') = None"
  shows "download_lora e NODE_CONFIG ld w m nm s1 s2 c k dc =
    (Raised (TypeError ''expected str, bytes or os.PathLike object, not NoneType''),
     (log_api_key (select_api_key (environ e) u k)
        (w\<lparr>dirs := insert (path_join e (models_dir e) ''loras'') (dirs w)\<rparr>))
      \<lparr>gets := gets w @ [(u, auth_headers (select_api_key (environ e) u k))]\<rparr>)"
  using assms by (simp add: download_lora_def makedirs_def requests_get_def
       log_api_key_fields Let_def)

lemma lora_present:
  assumes "makedirs_error e (path_join e (models_dir e) ''loras'') = None"
    and "NODE_CONFIG ''loras'' = Some records"
    and "resolve_url records nm = Some u" and "u \<noteq> []"
    and "http_get e (gets w) u (auth_headers (select_api_key (environ e) u k)) = Inr resp"
    and "raise_for_status resp = None"
    and "derive_filename (headers resp ''Content-Disposition'') = Some f"
    and "path_exists (w\<lparr>dirs := insert (path_join e (models_dir e) ''loras'') (dirs w)\<rparr>)
           (path_join e (path_join e (models_dir e) ''loras'') f)"
  shows "download_lora e NODE_CONFIG ld w m nm s1 s2 c k dc =
    (let p = path_join e (path_join e (models_dir e) ''loras'') f;
         w4 = log_msg INFO (''LORA file '' @ quoted f @ '' already exists at '' @ quoted p @
                            ''. Skipping download.'')
               ((log_api_key (select_api_key (environ e) u k)
                  (w\<lparr>dirs := insert (path_join e (models_dir e) ''loras'') (dirs w)\<rparr>))
                \<lparr>gets := gets w @ [(u, auth_headers (select_api_key (environ e) u k))]\<rparr>)
     in case ld (files w) m c f s1 s2 of Inl x \<Rightarrow> (Raised x, w4) | Inr out \<Rightarrow> (Returned out, w4))"
  using assms by (simp add: download_lora_def makedirs_def requests_get_def
       log_api_key_fields log_msg_fields path_exists_simps Let_def)

lemma lora_stream:
  assumes "makedirs_error e (path_join e (models_dir e) ''loras'') = None"
    and "NODE_CONFIG ''loras'' = Some records"
    and "resolve_url records nm = Some u" and "u \<noteq> []"
    and "http_get e (gets w) u (auth_headers (select_api_key (environ e) u k)) = Inr resp"
    and "raise_for_status resp = None"
    and "derive_filename (headers resp ''Content-Disposition'') = Some f"
    and "\<not> path_exists (w\<lparr>dirs := insert (path_join e (models_dir e) ''loras'') (dirs w)\<rparr>)
           (path_join e (path_join e (models_dir e) ''loras'') f)"
  shows "download_lora e NODE_CONFIG ld w m nm s1 s2 c k dc =
    (let p = path_join e (path_join e (models_dir e) ''loras'') f;
         w5 = log_msg INFO (''Downloading LORA '' @ quoted f @ '' from '' @ quoted u @
                            '' to '' @ quoted p)
               ((log_api_key (select_api_key (environ e) u k)
                  (w\<lparr>dirs := insert (path_join e (models_dir e) ''loras'') (dirs w)\<rparr>))
                \<lparr>gets := gets w @ [(u, auth_headers (select_api_key (environ e) u k))]\<rparr>);
         (failed, w6) = stream_to_file e w5 p resp dc
     in case failed of
          None \<Rightarrow>
            (let w4 = log_msg INFO (''Successfully downloaded '' @ quoted nm @ ''.'') w6
             in case ld (files w4) m c f s1 s2 of
                  Inl x \<Rightarrow> (Raised x, w4) | Inr out \<Rightarrow> (Returned out, w4))
        | Some x \<Rightarrow>
            (Returned (m, c),
             log_msg ERROR
               ((if is_request_exception x then ''Error downloading LORA '' @ quoted nm
                 else ''An unexpected error occurred during download of '' @ quoted nm)
                @ '': '' @ exn_str x) w6))"
  using assms by (simp add: download_lora_def makedirs_def requests_get_def
       log_api_key_fields log_msg_fields path_exists_simps Let_def split: prod.splits option.splits)




lemma write_chunks_gets: "gets (snd (write_chunks e p ds w)) = gets w"
  by (induction ds arbitrary: w) (auto split: option.splits)

lemma stream_to_file_gets: "gets (snd (stream_to_file e w p r dc)) = gets w"
proof -
  have "\<And>cs w1. gets (snd (write_chunks e p cs (w\<lparr>files := (files w)(p \<mapsto> [])\<rparr>))) = gets w"
    by (simp add: write_chunks_gets)
  then show ?thesis
    by (auto simp: stream_to_file_def Let_def split: sum.splits option.splits prod.splits)
       (metis snd_conv)+
qed

lemma lora_gets:
  assumes "makedirs_error e (path_join e (models_dir e) ''loras'') = None"
    and "NODE_CONFIG ''loras'' = Some records"
    and "resolve_url records nm = Some u" and "u \<noteq> []"
  shows "gets (snd (download_lora e NODE_CONFIG ld w m nm s1 s2 c k dc)) =
         gets w @ [(u, auth_headers (select_api_key (environ e) u k))]"
proof -
  have st: "\<And>w' p r a b. stream_to_file e w' p r dc = (a, b) \<Longrightarrow> gets b = gets w'"
    by (metis stream_to_file_gets snd_conv)
  show ?thesis
    using assms
    by (auto simp: download_lora_def makedirs_def requests_get_def log_api_key_fields
          log_msg_fields Let_def dest!: st split: sum.splits option.splits prod.splits)
qed

lemma lora_get_raises:
  assumes "makedirs_error e (path_join e (models_dir e) ''loras'') = None"
    and "NODE_CONFIG ''loras'' = Some records"
    and "resolve_url records nm = Some u" and "u \<noteq> []"
    and "http_get e (gets w) u (auth_headers (select_api_key (environ e) u k)) = Inl x"
  shows "download_lora e NODE_CONFIG ld w m nm s1 s2 c k dc =
    (Raised x,
     (log_api_key (select_api_key (environ e) u k)
        (w\<lparr>dirs := insert (path_join e (models_dir e) ''loras'') (dirs w)\<rparr>))
      \<lparr>gets := gets w @ [(u, auth_headers (select_api_key (environ e) u k))]\<rparr>)"
  using assms by (simp add: download_lora_def makedirs_def requests_get_def
       log_api_key_fields Let_def)

lemma write_chunks_fails_indep:
  "fst (write_chunks e p ds w) = fst (write_chunks e p ds w')"
  by (induction ds arbitrary: w w') (auto split: option.splits)

lemma stream_to_file_fails_indep:
  "fst (stream_to_file e w p r dc) = fst (stream_to_file e w' p r dc)"
proof -
  have "\<And>cs v v'. fst (write_chunks e p cs v) = None \<longleftrightarrow> fst (write_chunks e p cs v') = None"
    using write_chunks_fails_indep by metis
  moreover have "\<And>cs v v' x. fst (write_chunks e p cs v) = Some x \<longleftrightarrow>
      fst (write_chunks e p cs v') = Some x"
    using write_chunks_fails_indep by metis
  ultimately show ?thesis
    by (auto simp: stream_to_file_def Let_def split: sum.splits option.splits prod.splits)
       (metis fst_conv option.distinct(1) option.inject)+
qed

lemma write_chunks_keeps_file:
  "files w p \<noteq> None \<Longrightarrow> files (snd (write_chunks e p ds w)) p \<noteq> None"
  by (induction ds arbitrary: w) (auto split: option.splits)

lemma stream_to_file_creates:
  assumes "stream_to_file e w p r dc = (None, w')"
  shows "files w' p \<noteq> None"
proof -
  have "\<And>cs a b. write_chunks e p cs (w\<lparr>files := (files w)(p \<mapsto> [])\<rparr>) = (a, b) \<Longrightarrow>
      files b p \<noteq> None"
    using write_chunks_keeps_file [of "w\<lparr>files := (files w)(p \<mapsto> [])\<rparr>" p e] by (metis fun_upd_same
        option.distinct(1) select_convs(1) snd_conv surjective update_convs(1))
  then show ?thesis
    using assms
    by (auto simp: stream_to_file_def Let_def split: sum.splits option.splits prod.splits)
qed

lemma write_chunks_all_written:
  "\<forall>d \<in> set ds. write_error e p d = None \<Longrightarrow> fst (write_chunks e p ds w) = None"
  by (induction ds arbitrary: w) auto

lemma broken_stream_raises:
  assumes "(case headers r ''content-length'' of None \<Rightarrow> Inr 0 | Some s \<Rightarrow> py_int e s) = Inr n"
    and "open_error e p = None"
    and "iter_content r (k * 1024) = (chunks, Some x)"
    and "\<forall>d \<in> set chunks. write_error e p d = None"
  shows "fst (stream_to_file e w p r (Some k)) = Some x"
proof -
  obtain a b where wc: "write_chunks e p chunks (w\<lparr>files := (files w)(p \<mapsto> [])\<rparr>) = (a, b)"
    by (cases "write_chunks e p chunks (w\<lparr>files := (files w)(p \<mapsto> [])\<rparr>)")
  with write_chunks_all_written [OF assms(4), of "w\<lparr>files := (files w)(p \<mapsto> [])\<rparr>"]
  have "a = None" by simp
  with wc assms(1-3) show ?thesis
    by (simp add: stream_to_file_def Let_def)
qed

lemma lora_present_effects:
  assumes "makedirs_error e (path_join e (models_dir e) ''loras'') = None"
    and "NODE_CONFIG ''loras'' = Some records"
    and "resolve_url records nm = Some u" and "u \<noteq> []"
    and "http_get e (gets w) u (auth_headers (select_api_key (environ e) u k)) = Inr resp"
    and "raise_for_status resp = None"
    and "derive_filename (headers resp ''Content-Disposition'') = Some f"
    and "path_exists (w\<lparr>dirs := insert (path_join e (models_dir e) ''loras'') (dirs w)\<rparr>)
           (path_join e (path_join e (models_dir e) ''loras'') f)"
  shows "files (snd (download_lora e NODE_CONFIG ld w m nm s1 s2 c k dc)) = files w"
    and "dirs (snd (download_lora e NODE_CONFIG ld w m nm s1 s2 c k dc)) =
           insert (path_join e (models_dir e) ''loras'') (dirs w)"
  using lora_present [where e = e and NODE_CONFIG = NODE_CONFIG and records = records
      and nm = nm and u = u and w = w and k = k and resp = resp and f = f and ld = ld
      and m = m and ?s1.0 = s1 and ?s2.0 = s2 and c = c and dc = dc, OF assms]
  by (simp_all add: Let_def log_msg_fields log_api_key_fields split: sum.splits)

lemma lora_streamed_effects:
  assumes "makedirs_error e (path_join e (models_dir e) ''loras'') = None"
    and "NODE_CONFIG ''loras'' = Some records"
    and "resolve_url records nm = Some u" and "u \<noteq> []"
    and "http_get e (gets w) u (auth_headers (select_api_key (environ e) u k)) = Inr resp"
    and "raise_for_status resp = None"
    and "derive_filename (headers resp ''Content-Disposition'') = Some f"
    and "\<not> path_exists (w\<lparr>dirs := insert (path_join e (models_dir e) ''loras'') (dirs w)\<rparr>)
           (path_join e (path_join e (models_dir e) ''loras'') f)"
    and "fst (stream_to_file e w (path_join e (path_join e (models_dir e) ''loras'') f) resp dc)
           = None"
  shows "files (snd (download_lora e NODE_CONFIG ld w m nm s1 s2 c k dc))
           (path_join e (path_join e (models_dir e) ''loras'') f) \<noteq> None"
proof -
  let ?p = "path_join e (path_join e (models_dir e) ''loras'') f"
  let ?w5 = "log_msg INFO (''Downloading LORA '' @ quoted f @ '' from '' @ quoted u @
                            '' to '' @ quoted ?p)
               ((log_api_key (select_api_key (environ e) u k)
                  (w\<lparr>dirs := insert (path_join e (models_dir e) ''loras'') (dirs w)\<rparr>))
                \<lparr>gets := gets w @ [(u, auth_headers (select_api_key (environ e) u k))]\<rparr>)"
  obtain failed w6 where st: "stream_to_file e ?w5 ?p resp dc = (failed, w6)"
    by (cases "stream_to_file e ?w5 ?p resp dc")
  have "fst (stream_to_file e ?w5 ?p resp dc) = None"
    using assms(9) stream_to_file_fails_indep [of e ?w5 ?p resp dc w] by simp
  with st have failed: "failed = None" by simp
  with st have "files w6 ?p \<noteq> None"
    using stream_to_file_creates [of e ?w5 ?p resp dc w6] by simp
  then show ?thesis
    using lora_stream [where e = e and NODE_CONFIG = NODE_CONFIG and records = records
        and nm = nm and u = u and w = w and k = k and resp = resp and f = f and ld = ld
        and m = m and ?s1.0 = s1 and ?s2.0 = s2 and c = c and dc = dc, OF assms(1-8)]
      st failed
    by (simp add: Let_def log_msg_fields split: sum.splits)
qed

lemma unet_fallback:
  "download_unet e default_config ld w nm wd k dc =
     (case makedirs_error e (path_join e (models_dir e) ''diffusion_models'') of
        Some x \<Rightarrow> (Raised x, w)
      | None \<Rightarrow>
          (Raised (KeyError (quoted ''diffusion_models'')),
           w\<lparr>dirs := insert (path_join e (models_dir e) ''diffusion_models'') (dirs w)\<rparr>))"
  by (simp add: download_unet_def makedirs_def default_config_def split: option.splits)

lemma checkpoint_fallback:
  "download_checkpoint e default_config ld w nm k dc =
     (case makedirs_error e (path_join e (models_dir e) ''checkpoints'') of
        Some x \<Rightarrow> (Raised x, w)
      | None \<Rightarrow>
          (Raised (KeyError (quoted ''checkpoints'')),
           w\<lparr>dirs := insert (path_join e (models_dir e) ''checkpoints'') (dirs w)\<rparr>))"
  by (simp add: download_checkpoint_def makedirs_def default_config_def split: option.splits)

lemma default_config_loras:
  "default_config ''loras'' =
     Some [\<lparr>name = ''Lora n1'', url = ''not_valid_url''\<rparr>,
           \<lparr>name = ''Lora n2'', url = ''not_valid_url''\<rparr>]"
  by (simp add: default_config_def)

lemma select_api_key_other_host:
  "select_api_key environment ''not_valid_url'' k = k"
  by (simp add: select_api_key_def startswith_def)

subsection \<open>The claims\<close>

text \<open>
  C1, as the claim states it, fails: \<open>raise_for_status\<close> is called before the \<open>try\<close>
  statement, so nothing in \<open>download_lora\<close> catches what it raises. On the example
  server the model \<open>gone\<close> answers 404 and the call ends with the \<open>HTTPError\<close>
  instead of returning the model and clip it was given.
\<close>

theorem http_error_not_caught:
  "fst (download_lora example_env example_config example_load_lora example_world 10 ''gone''
          1 1 20 None (Some 4)) = Raised (HTTPError ''404 Client Error: Not Found'')"
  by (simp add: download_lora_def makedirs_def requests_get_def raise_for_status_def
        select_api_key_def py_or_def auth_headers_def log_api_key_def log_msg_def
        startswith_def Let_def example_defs)

text \<open>
  C1, amended. For every invocation of \<open>download_lora\<close> in which the models directory
  is made, the name resolves to a non-empty URL and the GET returns a response with a
  status from 400 to 599, \<open>raise_for_status\<close> raises \<open>HTTPError\<close> outside the \<open>try\<close>
  statement: the exception leaves \<open>download_lora\<close>, the model and clip are not
  returned, the one GET request has been sent and no file is written.
\<close>

theorem http_error_escapes:
  assumes "makedirs_error e (path_join e (models_dir e) ''loras'') = None"
    and "NODE_CONFIG ''loras'' = Some records"
    and "resolve_url records lora_name = Some u" and "u \<noteq> []"
    and "http_get e (gets w) u (auth_headers (select_api_key (environ e) u api_key)) = Inr resp"
    and "400 \<le> status_code resp" and "status_code resp < 600"
  shows "fst (download_lora e NODE_CONFIG load_lora w model lora_name strength_model
                strength_clip clip api_key download_chunks) =
           Raised (HTTPError (http_error_msg resp))
     \<and> fst (download_lora e NODE_CONFIG load_lora w model lora_name strength_model
                strength_clip clip api_key download_chunks) \<noteq> Returned (model, clip)
     \<and> files (snd (download_lora e NODE_CONFIG load_lora w model lora_name strength_model
                strength_clip clip api_key download_chunks)) = files w
     \<and> gets (snd (download_lora e NODE_CONFIG load_lora w model lora_name strength_model
                strength_clip clip api_key download_chunks)) =
           gets w @ [(u, auth_headers (select_api_key (environ e) u api_key))]"
  using lora_http_error [where e = e and NODE_CONFIG = NODE_CONFIG and records = records
      and nm = lora_name and u = u and w = w and k = api_key and resp = resp
      and ld = load_lora and m = model and ?s1.0 = strength_model and ?s2.0 = strength_clip
      and c = clip and dc = download_chunks, OF assms]
  by (simp add: log_api_key_fields)

theorem http_error_escapes_witness:
  "resolve_url example_records ''gone'' = Some ''https://civitai.com/gone''
   \<and> http_get example_env (gets example_world) ''https://civitai.com/gone''
        (auth_headers (select_api_key (environ example_env) ''https://civitai.com/gone'' None)) =
       Inr example_404_response
   \<and> status_code example_404_response = 404
   \<and> fst (download_lora example_env example_config example_load_lora example_world 10 ''gone''
          1 1 20 None (Some 4)) = Raised (HTTPError ''404 Client Error: Not Found'')
   \<and> files (snd (download_lora example_env example_config example_load_lora example_world 10
          ''gone'' 1 1 20 None (Some 4))) = Map.empty"
proof -
  have d: "makedirs_error example_env (path_join example_env (models_dir example_env) ''loras'') = None"
    by (simp add: example_env_def)
  have c: "example_config ''loras'' = Some example_records"
    by (simp add: example_config_def)
  have r: "resolve_url example_records ''gone'' = Some ''https://civitai.com/gone''"
    by (simp add: example_records_def)
  have n: "''https://civitai.com/gone'' \<noteq> []"
    by simp
  have g: "http_get example_env (gets example_world) ''https://civitai.com/gone''
        (auth_headers (select_api_key (environ example_env) ''https://civitai.com/gone'' None)) =
       Inr example_404_response"
    by (simp add: example_env_def example_server_def)
  have s: "400 \<le> status_code example_404_response" "status_code example_404_response < 600"
    "status_code example_404_response = 404"
    "http_error_msg example_404_response = ''404 Client Error: Not Found''"
    by (simp_all add: example_404_response_def)
  have f: "files example_world = Map.empty"
    by (simp add: example_world_def)
  show ?thesis
    using r g s f
      http_error_escapes [where e = example_env and NODE_CONFIG = example_config
        and records = example_records and lora_name = "''gone''"
        and u = "''https://civitai.com/gone''" and w = example_world and api_key = None
        and resp = example_404_response and load_lora = example_load_lora
        and model = "10::nat" and clip = "20::nat" and strength_model = "1::nat"
        and strength_clip = "1::nat" and download_chunks = "Some 4",
        OF d c r n g s(1) s(2)]
    by simp
qed

text \<open>
  C2, as the claim states it, fails: the file name is known only from the response,
  so the GET is sent before the destination is looked at. In the world where
  \<open>/models/loras/foo.safetensors\<close> is already there and no request has been sent, the
  call for \<open>ok\<close> sends one; and two calls in a row from the empty world send two.
\<close>

theorem existing_file_still_requested:
  "files example_cached_world ''/models/loras/foo.safetensors'' = Some ''abcdef''
   \<and> gets example_cached_world = []
   \<and> gets (snd (download_lora example_env example_config example_load_lora
        example_cached_world 10 ''ok'' 1 1 20 None (Some 4))) =
       [(''https://civitai.com/ok'', Some [(''Authorization'', ''Bearer envtok'')])]
   \<and> length (gets (snd (download_lora example_env example_config example_load_lora
        (snd (download_lora example_env example_config example_load_lora example_world 10
           ''ok'' 1 1 20 None (Some 4)))
        10 ''ok'' 1 1 20 None (Some 4)))) = 2"
  by (simp add: download_lora_def makedirs_def requests_get_def raise_for_status_def
        select_api_key_def py_or_def auth_headers_def log_api_key_def log_msg_def
        startswith_def Let_def example_defs derive_filename_def match_filename_def
        py_strip_def py_isspace_def dquote_def path_exists_def stream_to_file_def)

text \<open>
  C2, amended. For every invocation of \<open>download_lora\<close> that reaches the Presence
  Guard (the directory is made, the name resolves, the GET returns a response that
  \<open>raise_for_status\<close> accepts and that names a file), exactly one GET request is sent;
  when the destination file already exists, nothing more is done with the response:
  no file is written or changed. Invoking the same download twice in sequence, where
  the body of the first \<open>try\<close> statement raises nothing and the second response names
  the same file, sends two GET requests; after the first call the destination exists,
  and the second call writes nothing.
\<close>

theorem presence_guard_after_request:
  fixes e NODE_CONFIG load_lora model lora_name strength_model strength_clip clip api_key
    download_chunks
  defines "call \<equiv> \<lambda>w. snd (download_lora e NODE_CONFIG load_lora w model lora_name
             strength_model strength_clip clip api_key download_chunks)"
  assumes "makedirs_error e (path_join e (models_dir e) ''loras'') = None"
    and "NODE_CONFIG ''loras'' = Some records"
    and "resolve_url records lora_name = Some u" and "u \<noteq> []"
    and "hs = auth_headers (select_api_key (environ e) u api_key)"
    and "p = path_join e (path_join e (models_dir e) ''loras'') f"
    and "http_get e (gets w) u hs = Inr r1"
    and "raise_for_status r1 = None"
    and "derive_filename (headers r1 ''Content-Disposition'') = Some f"
  shows "gets (call w) = gets w @ [(u, hs)]
     \<and> (files w p \<noteq> None \<longrightarrow>
            gets (call w) = gets w @ [(u, hs)] \<and> files (call w) = files w)
     \<and> (fst (stream_to_file e w p r1 download_chunks) = None
          \<and> http_get e (gets w @ [(u, hs)]) u hs = Inr r2
          \<and> raise_for_status r2 = None
          \<and> derive_filename (headers r2 ''Content-Disposition'') = Some f \<longrightarrow>
            path_exists (call w) p
          \<and> gets (call (call w)) = gets w @ [(u, hs), (u, hs)]
          \<and> files (call (call w)) = files (call w))"
proof -
  let ?d = "path_join e (models_dir e) ''loras''"
  have g1: "http_get e (gets w) u (auth_headers (select_api_key (environ e) u api_key)) = Inr r1"
    using assms(6,8) by simp
  have sent: "\<And>v. gets (call v) = gets v @ [(u, hs)]"
    unfolding call_def assms(6)
    using lora_gets [where e = e and NODE_CONFIG = NODE_CONFIG and records = records
        and nm = lora_name and u = u and k = api_key and ld = load_lora and m = model
        and ?s1.0 = strength_model and ?s2.0 = strength_clip and c = clip
        and dc = download_chunks, OF assms(2-5)]
    by blast
  have gets1: "gets (call w) = gets w @ [(u, hs)]"
    by (rule sent)
  have present: "\<And>v r. http_get e (gets v) u (auth_headers (select_api_key (environ e) u api_key))
         = Inr r \<Longrightarrow> raise_for_status r = None
       \<Longrightarrow> derive_filename (headers r ''Content-Disposition'') = Some f
       \<Longrightarrow> path_exists (v\<lparr>dirs := insert ?d (dirs v)\<rparr>) p
       \<Longrightarrow> files (call v) = files v \<and> dirs (call v) = insert ?d (dirs v)"
    unfolding call_def assms(7)
    using lora_present_effects [where e = e and NODE_CONFIG = NODE_CONFIG and records = records
        and nm = lora_name and u = u and k = api_key and f = f and ld = load_lora
        and m = model and ?s1.0 = strength_model and ?s2.0 = strength_clip and c = clip
        and dc = download_chunks, OF assms(2-5)]
    by blast
  have A: "files w p \<noteq> None \<longrightarrow> gets (call w) = gets w @ [(u, hs)] \<and> files (call w) = files w"
  proof
    assume "files w p \<noteq> None"
    then have "path_exists (w\<lparr>dirs := insert ?d (dirs w)\<rparr>) p"
      by (simp add: path_exists_def)
    with present [OF g1 assms(9,10)] gets1
    show "gets (call w) = gets w @ [(u, hs)] \<and> files (call w) = files w" by simp
  qed
  have B: "fst (stream_to_file e w p r1 download_chunks) = None
          \<and> http_get e (gets w @ [(u, hs)]) u hs = Inr r2
          \<and> raise_for_status r2 = None
          \<and> derive_filename (headers r2 ''Content-Disposition'') = Some f \<longrightarrow>
            path_exists (call w) p
          \<and> gets (call (call w)) = gets w @ [(u, hs), (u, hs)]
          \<and> files (call (call w)) = files (call w)"
  proof
    assume h: "fst (stream_to_file e w p r1 download_chunks) = None
          \<and> http_get e (gets w @ [(u, hs)]) u hs = Inr r2
          \<and> raise_for_status r2 = None
          \<and> derive_filename (headers r2 ''Content-Disposition'') = Some f"
    have ex1: "path_exists (call w) p"
    proof (cases "path_exists (w\<lparr>dirs := insert ?d (dirs w)\<rparr>) p")
      case True
      with present [OF g1 assms(9,10)] show ?thesis
        by (simp add: path_exists_def)
    next
      case False
      have "files (call w) p \<noteq> None"
        unfolding call_def assms(7)
        using lora_streamed_effects [where e = e and NODE_CONFIG = NODE_CONFIG
            and records = records and nm = lora_name and u = u and w = w and k = api_key
            and resp = r1 and f = f and ld = load_lora and m = model
            and ?s1.0 = strength_model and ?s2.0 = strength_clip and c = clip
            and dc = download_chunks, OF assms(2-5) g1 assms(9,10)]
          False h assms(7)
        by simp
      then show ?thesis by (simp add: path_exists_def)
    qed
    then have ex2: "path_exists ((call w)\<lparr>dirs := insert ?d (dirs (call w))\<rparr>) p"
      by (auto simp: path_exists_def)
    have g2: "http_get e (gets (call w)) u (auth_headers (select_api_key (environ e) u api_key))
         = Inr r2"
      using h gets1 assms(6) by simp
    have "gets (call (call w)) = gets (call w) @ [(u, hs)]"
      by (rule sent)
    with gets1 present [OF g2 _ _ ex2] h ex1
    show "path_exists (call w) p
          \<and> gets (call (call w)) = gets w @ [(u, hs), (u, hs)]
          \<and> files (call (call w)) = files (call w)" by simp
  qed
  from gets1 A B show ?thesis by blast
qed

theorem presence_guard_after_request_witness:
  "files example_cached_world ''/models/loras/foo.safetensors'' \<noteq> None
   \<and> files (snd (download_lora example_env example_config example_load_lora
        example_cached_world 10 ''ok'' 1 1 20 None (Some 4))) = files example_cached_world
   \<and> fst (stream_to_file example_env example_world ''/models/loras/foo.safetensors''
        example_ok_response (Some 4)) = None
   \<and> path_exists (snd (download_lora example_env example_config example_load_lora
        example_world 10 ''ok'' 1 1 20 None (Some 4))) ''/models/loras/foo.safetensors''
   \<and> gets (snd (download_lora example_env example_config example_load_lora
        (snd (download_lora example_env example_config example_load_lora example_world 10
           ''ok'' 1 1 20 None (Some 4)))
        10 ''ok'' 1 1 20 None (Some 4))) =
       [(''https://civitai.com/ok'', Some [(''Authorization'', ''Bearer envtok'')]),
        (''https://civitai.com/ok'', Some [(''Authorization'', ''Bearer envtok'')])]
   \<and> files (snd (download_lora example_env example_config example_load_lora
        (snd (download_lora example_env example_config example_load_lora example_world 10
           ''ok'' 1 1 20 None (Some 4)))
        10 ''ok'' 1 1 20 None (Some 4))) =
       files (snd (download_lora example_env example_config example_load_lora example_world 10
           ''ok'' 1 1 20 None (Some 4)))"
proof -
  let ?hs = "Some [(''Authorization'', ''Bearer envtok'')]"
  have d: "makedirs_error example_env (path_join example_env (models_dir example_env) ''loras'') = None"
    by (simp add: example_env_def)
  have c: "example_config ''loras'' = Some example_records"
    by (simp add: example_config_def)
  have r: "resolve_url example_records ''ok'' = Some ''https://civitai.com/ok''"
    by (simp add: example_records_def)
  have n: "''https://civitai.com/ok'' \<noteq> []"
    by simp
  have hs: "?hs = auth_headers (select_api_key (environ example_env) ''https://civitai.com/ok'' None)"
    by (simp add: auth_headers_def select_api_key_def py_or_def startswith_def Let_def
          example_env_def)
  have p: "''/models/loras/foo.safetensors'' =
      path_join example_env (path_join example_env (models_dir example_env) ''loras'')
        ''foo.safetensors''"
    by (simp add: example_env_def)
  have g: "http_get example_env (gets example_world) ''https://civitai.com/ok'' ?hs =
         Inr example_ok_response"
     "http_get example_env (gets example_cached_world) ''https://civitai.com/ok'' ?hs =
         Inr example_ok_response"
     "http_get example_env (gets example_world @ [(''https://civitai.com/ok'', ?hs)])
         ''https://civitai.com/ok'' ?hs = Inr example_ok_response"
    by (simp_all add: example_env_def example_server_def)
  have s: "raise_for_status example_ok_response = None"
    by (simp add: raise_for_status_def example_ok_response_def)
  have f: "derive_filename (headers example_ok_response ''Content-Disposition'') =
        Some ''foo.safetensors''"
    by (simp add: example_ok_response_def derive_filename_def match_filename_def
          startswith_def py_strip_def py_isspace_def dquote_def)
  have x: "files example_cached_world ''/models/loras/foo.safetensors'' \<noteq> None"
    by (simp add: example_cached_world_def)
  have b: "fst (stream_to_file example_env example_world ''/models/loras/foo.safetensors''
        example_ok_response (Some 4)) = None"
    by (simp add: stream_to_file_def example_env_def example_ok_response_def
          example_world_def Let_def)
  have e: "gets example_world = []"
    by (simp add: example_world_def)
  note t = presence_guard_after_request [where e = example_env
      and NODE_CONFIG = example_config and records = example_records
      and lora_name = "''ok''" and u = "''https://civitai.com/ok''" and api_key = None
      and hs = ?hs and p = "''/models/loras/foo.safetensors''" and f = "''foo.safetensors''"
      and ?r1.0 = example_ok_response and ?r2.0 = example_ok_response
      and load_lora = example_load_lora and model = "10::nat" and clip = "20::nat"
      and strength_model = "1::nat" and strength_clip = "1::nat"
      and download_chunks = "Some 4"]
  note t1 = t [where w = example_cached_world, OF d c r n hs p g(2) s f]
  note t2 = t [where w = example_world, OF d c r n hs p g(1) s f]
  show ?thesis
    using t1 t2 x b g(3) s f e by simp
qed



text \<open>
  C4. Whatever exception the body of the \<open>try\<close> statement raises, be it while the
  stream is read (\<open>iter_content\<close> breaks), while the file is opened or written, or
  before that, the exception is caught: \<open>download_lora\<close> returns the model and clip it
  was given, the loader of the host is not called, and the last line of the log is an
  error that names the logical name and the exception. Nothing is raised to the
  caller. A stream that breaks after the file was opened and the chunks received
  were written is one such exception (lemma \<open>broken_stream_raises\<close>).
\<close>

theorem stream_failure_caught:
  assumes "makedirs_error e (path_join e (models_dir e) ''loras'') = None"
    and "NODE_CONFIG ''loras'' = Some records"
    and "resolve_url records lora_name = Some u" and "u \<noteq> []"
    and "http_get e (gets w) u (auth_headers (select_api_key (environ e) u api_key)) = Inr resp"
    and "raise_for_status resp = None"
    and "derive_filename (headers resp ''Content-Disposition'') = Some f"
    and "\<not> path_exists (w\<lparr>dirs := insert (path_join e (models_dir e) ''loras'') (dirs w)\<rparr>)
           (path_join e (path_join e (models_dir e) ''loras'') f)"
    and "fst (stream_to_file e w (path_join e (path_join e (models_dir e) ''loras'') f) resp
           download_chunks) = Some x"
  shows "fst (download_lora e NODE_CONFIG load_lora w model lora_name strength_model
                strength_clip clip api_key download_chunks) = Returned (model, clip)
     \<and> last (logged (snd (download_lora e NODE_CONFIG load_lora w model lora_name
                strength_model strength_clip clip api_key download_chunks))) =
         (ERROR,
          (if is_request_exception x then ''Error downloading LORA '' @ quoted lora_name
           else ''An unexpected error occurred during download of '' @ quoted lora_name)
          @ '': '' @ exn_str x)"
proof -
  let ?p = "path_join e (path_join e (models_dir e) ''loras'') f"
  let ?w5 = "log_msg INFO (''Downloading LORA '' @ quoted f @ '' from '' @ quoted u @
                            '' to '' @ quoted ?p)
               ((log_api_key (select_api_key (environ e) u api_key)
                  (w\<lparr>dirs := insert (path_join e (models_dir e) ''loras'') (dirs w)\<rparr>))
                \<lparr>gets := gets w @ [(u, auth_headers (select_api_key (environ e) u api_key))]\<rparr>)"
  obtain failed w6 where st: "stream_to_file e ?w5 ?p resp download_chunks = (failed, w6)"
    by (cases "stream_to_file e ?w5 ?p resp download_chunks")
  have "fst (stream_to_file e ?w5 ?p resp download_chunks) = Some x"
    using assms(9) stream_to_file_fails_indep [of e ?w5 ?p resp download_chunks w] by simp
  with st have failed: "failed = Some x" by simp
  show ?thesis
    using lora_stream [where e = e and NODE_CONFIG = NODE_CONFIG and records = records
        and nm = lora_name and u = u and w = w and k = api_key and resp = resp and f = f
        and ld = load_lora and m = model and ?s1.0 = strength_model and ?s2.0 = strength_clip
        and c = clip and dc = download_chunks, OF assms(1-8)] st failed
    by (simp add: Let_def log_msg_fields)
qed

theorem stream_failure_caught_witness:
  "resolve_url example_records ''broken'' = Some ''https://huggingface.co/broken''
   \<and> http_get example_env (gets example_world) ''https://huggingface.co/broken''
        (auth_headers (select_api_key (environ example_env) ''https://huggingface.co/broken''
           None)) = Inr example_broken_response
   \<and> derive_filename (headers example_broken_response ''Content-Disposition'') =
        Some ''cut.safetensors''
   \<and> \<not> path_exists (example_world\<lparr>dirs := insert ''/models/loras'' (dirs example_world)\<rparr>)
         ''/models/loras/cut.safetensors''
   \<and> snd (iter_content example_broken_response (4 * 1024)) =
        Some (RequestException ''Connection broken'')
   \<and> fst (stream_to_file example_env example_world ''/models/loras/cut.safetensors''
          example_broken_response (Some 4)) = Some (RequestException ''Connection broken'')
   \<and> fst (download_lora example_env example_config example_load_lora example_world 10 ''broken''
          1 1 20 None (Some 4)) = Returned (10, 20)
   \<and> last (logged (snd (download_lora example_env example_config example_load_lora
          example_world 10 ''broken'' 1 1 20 None (Some 4)))) =
        (ERROR, ''Error downloading LORA '' @ quoted ''broken'' @ '': Connection broken'')"
proof -
  have d: "makedirs_error example_env (path_join example_env (models_dir example_env) ''loras'') = None"
    by (simp add: example_env_def)
  have c: "example_config ''loras'' = Some example_records"
    by (simp add: example_config_def)
  have r: "resolve_url example_records ''broken'' = Some ''https://huggingface.co/broken''"
    by (simp add: example_records_def)
  have n: "''https://huggingface.co/broken'' \<noteq> []"
    by simp
  have g: "http_get example_env (gets example_world) ''https://huggingface.co/broken''
        (auth_headers (select_api_key (environ example_env) ''https://huggingface.co/broken''
           None)) = Inr example_broken_response"
    by (simp add: example_env_def example_server_def)
  have s: "raise_for_status example_broken_response = None"
    by (simp add: raise_for_status_def example_broken_response_def)
  have f: "derive_filename (headers example_broken_response ''Content-Disposition'') =
        Some ''cut.safetensors''"
    by (simp add: example_broken_response_def derive_filename_def match_filename_def
          startswith_def py_strip_def py_isspace_def dquote_def)
  have j: "path_join example_env (models_dir example_env) ''loras'' = ''/models/loras''"
      "path_join example_env ''/models/loras'' ''cut.safetensors'' =
         ''/models/loras/cut.safetensors''"
    by (simp_all add: example_env_def)
  have x: "\<not> path_exists (example_world\<lparr>dirs := insert ''/models/loras'' (dirs example_world)\<rparr>)
         ''/models/loras/cut.safetensors''"
    by (simp add: path_exists_def example_world_def)
  have i: "snd (iter_content example_broken_response (4 * 1024)) =
        Some (RequestException ''Connection broken'')"
    by (simp add: example_broken_response_def)
  have b: "fst (stream_to_file example_env example_world ''/models/loras/cut.safetensors''
          example_broken_response (Some 4)) = Some (RequestException ''Connection broken'')"
    by (simp add: stream_to_file_def example_env_def example_broken_response_def
          example_world_def Let_def)
  have x': "\<not> path_exists
       (example_world\<lparr>dirs := insert (path_join example_env (models_dir example_env) ''loras'')
          (dirs example_world)\<rparr>)
       (path_join example_env (path_join example_env (models_dir example_env) ''loras'')
          ''cut.safetensors'')"
    using x by (simp add: j)
  have b': "fst (stream_to_file example_env example_world
       (path_join example_env (path_join example_env (models_dir example_env) ''loras'')
          ''cut.safetensors'')
       example_broken_response (Some 4)) = Some (RequestException ''Connection broken'')"
    using b by (simp add: j)
  note t = stream_failure_caught [where e = example_env and NODE_CONFIG = example_config
        and records = example_records and lora_name = "''broken''"
        and u = "''https://huggingface.co/broken''" and w = example_world and api_key = None
        and resp = example_broken_response and load_lora = example_load_lora
        and model = "10::nat" and clip = "20::nat" and strength_model = "1::nat"
        and strength_clip = "1::nat" and download_chunks = "Some 4"
        and f = "''cut.safetensors''" and x = "RequestException ''Connection broken''",
        OF d c r n g s f x' b']
  show ?thesis
    using r g f x i b t by simp
qed

text \<open>
  C5, as the claim states it, fails: the fallback is not chosen by the host of the URL
  but by two literal prefix tests, \<open>startswith("https://civitai.com")\<close> and
  \<open>startswith("https://huggingface.co")\<close>. With \<open>CIVITAI_TOKEN\<close> set and no explicit
  token, a URL on the CivitAI host that is written with \<open>http://\<close>, or with the host
  in capitals, gets no token, and \<open>download_lora\<close> calls \<open>requests.get\<close> without
  headers; a URL on another host that merely starts with the prefix gets the token.
\<close>

theorem civitai_host_without_token:
  "environ example_env ''CIVITAI_TOKEN'' = Some ''envtok''
   \<and> select_api_key (environ example_env) ''http://civitai.com/ok'' None = None
   \<and> auth_headers (select_api_key (environ example_env) ''http://civitai.com/ok'' None) = None
   \<and> select_api_key (environ example_env) ''https://CIVITAI.com/ok'' None = None
   \<and> select_api_key (environ example_env) ''https://civitai.com.evil.example/x'' None =
       Some ''envtok''
   \<and> gets (snd (download_lora example_env example_plain_config example_load_lora
        example_world 10 ''plain'' 1 1 20 None (Some 4))) = [(''http://civitai.com/ok'', None)]"
  by (simp add: download_lora_def makedirs_def requests_get_def select_api_key_def py_or_def
        auth_headers_def log_api_key_def log_msg_def startswith_def Let_def
        example_plain_config_def example_defs)

text \<open>
  C5, amended. The bearer token of the Authorization header. An explicit token (a
  non-empty \<open>api_key\<close>) is the one used, whatever the environment holds and whatever
  the URL is. Without an explicit token, a URL that starts with the literal prefix
  \<open>https://civitai.com\<close> takes the value of \<open>CIVITAI_TOKEN\<close>, and a URL that starts
  with the literal prefix \<open>https://huggingface.co\<close> the value of \<open>HUGGINGFACE_TOKEN\<close>;
  for a URL that starts with neither prefix the environment is not consulted, whatever
  its host. A token that resolves gives the single header
  \<open>Authorization: Bearer token\<close>; when none resolves, no headers are passed. The GET
  request of \<open>download_lora\<close> is sent to the resolved URL with exactly these headers.
\<close>

theorem bearer_token_choice:
  "(k \<noteq> [] \<longrightarrow>
      select_api_key environment u (Some k) = Some k
      \<and> auth_headers (select_api_key environment u (Some k)) =
          Some [(''Authorization'', ''Bearer '' @ k)])
   \<and> (\<not> truthy api_key \<and> startswith u ''https://civitai.com'' \<longrightarrow>
        select_api_key environment u api_key = environment ''CIVITAI_TOKEN'')
   \<and> (\<not> truthy api_key \<and> startswith u ''https://huggingface.co'' \<longrightarrow>
        select_api_key environment u api_key = environment ''HUGGINGFACE_TOKEN'')
   \<and> (select_api_key environment u api_key = Some t \<and> t \<noteq> [] \<longrightarrow>
        auth_headers (select_api_key environment u api_key) =
          Some [(''Authorization'', ''Bearer '' @ t)])
   \<and> (\<not> truthy (select_api_key environment u api_key) \<longrightarrow>
        auth_headers (select_api_key environment u api_key) = None)
   \<and> (makedirs_error e (path_join e (models_dir e) ''loras'') = None
        \<and> NODE_CONFIG ''loras'' = Some records
        \<and> resolve_url records lora_name = Some u \<and> u \<noteq> [] \<longrightarrow>
        gets (snd (download_lora e NODE_CONFIG load_lora w model lora_name strength_model
                     strength_clip clip api_key download_chunks)) =
          gets w @ [(u, auth_headers (select_api_key (environ e) u api_key))])
   \<and> (\<not> startswith u ''https://civitai.com'' \<and> \<not> startswith u ''https://huggingface.co''
        \<longrightarrow> select_api_key environment u api_key = api_key)"
proof -
  have 1: "k \<noteq> [] \<longrightarrow>
      select_api_key environment u (Some k) = Some k
      \<and> auth_headers (select_api_key environment u (Some k)) =
          Some [(''Authorization'', ''Bearer '' @ k)]"
    by (simp add: select_api_key_def py_or_def Let_def auth_headers_def)
  have 2: "\<not> truthy api_key \<and> startswith u ''https://civitai.com'' \<longrightarrow>
        select_api_key environment u api_key = environment ''CIVITAI_TOKEN''"
    using civitai_not_hf [of u] by (simp add: select_api_key_def py_or_def)
  have 3: "\<not> truthy api_key \<and> startswith u ''https://huggingface.co'' \<longrightarrow>
        select_api_key environment u api_key = environment ''HUGGINGFACE_TOKEN''"
    using civitai_not_hf [of u] by (auto simp: select_api_key_def py_or_def)
  have 4: "select_api_key environment u api_key = Some t \<and> t \<noteq> [] \<longrightarrow>
        auth_headers (select_api_key environment u api_key) =
          Some [(''Authorization'', ''Bearer '' @ t)]"
    by (simp add: auth_headers_def)
  have 5: "\<not> truthy (select_api_key environment u api_key) \<longrightarrow>
        auth_headers (select_api_key environment u api_key) = None"
    by (cases "select_api_key environment u api_key") (simp_all add: auth_headers_def)
  have 6: "makedirs_error e (path_join e (models_dir e) ''loras'') = None
        \<and> NODE_CONFIG ''loras'' = Some records
        \<and> resolve_url records lora_name = Some u \<and> u \<noteq> [] \<longrightarrow>
        gets (snd (download_lora e NODE_CONFIG load_lora w model lora_name strength_model
                     strength_clip clip api_key download_chunks)) =
          gets w @ [(u, auth_headers (select_api_key (environ e) u api_key))]"
    using lora_gets [of e NODE_CONFIG records lora_name u load_lora w model strength_model
        strength_clip clip api_key download_chunks] by blast
  have 7: "\<not> startswith u ''https://civitai.com'' \<and> \<not> startswith u ''https://huggingface.co''
        \<longrightarrow> select_api_key environment u api_key = api_key"
    by (simp add: select_api_key_def)
  from 1 2 3 4 5 6 7 show ?thesis by blast
qed

theorem bearer_token_choice_witness:
  "''explicit'' \<noteq> []
   \<and> select_api_key (environ example_env) ''https://civitai.com/ok'' (Some ''explicit'') =
       Some ''explicit''
   \<and> \<not> truthy None \<and> startswith ''https://civitai.com/ok'' ''https://civitai.com''
   \<and> select_api_key (environ example_env) ''https://civitai.com/ok'' None = Some ''envtok''
   \<and> startswith ''https://huggingface.co/bare'' ''https://huggingface.co''
   \<and> select_api_key (environ example_env) ''https://huggingface.co/bare'' None = None
   \<and> auth_headers (select_api_key (environ example_env) ''https://huggingface.co/bare'' None) =
       None
   \<and> resolve_url example_records ''ok'' = Some ''https://civitai.com/ok''
   \<and> gets (snd (download_lora example_env example_config example_load_lora example_world 10
        ''ok'' 1 1 20 (Some ''explicit'') (Some 4))) =
       [(''https://civitai.com/ok'', Some [(''Authorization'', ''Bearer explicit'')])]
   \<and> \<not> startswith ''http://civitai.com/ok'' ''https://civitai.com''
   \<and> \<not> startswith ''http://civitai.com/ok'' ''https://huggingface.co''
   \<and> select_api_key (environ example_env) ''http://civitai.com/ok'' None = None"
proof -
  have e: "environ example_env ''CIVITAI_TOKEN'' = Some ''envtok''"
     "environ example_env ''HUGGINGFACE_TOKEN'' = None"
    by (simp_all add: example_env_def)
  have o: "\<not> startswith ''http://civitai.com/ok'' ''https://civitai.com''"
    "\<not> startswith ''http://civitai.com/ok'' ''https://huggingface.co''"
    by (simp_all add: startswith_def)
  have s: "startswith ''https://civitai.com/ok'' ''https://civitai.com''"
    "startswith ''https://huggingface.co/bare'' ''https://huggingface.co''"
    by (simp_all add: startswith_def)
  have d: "makedirs_error example_env (path_join example_env (models_dir example_env) ''loras'') = None"
    by (simp add: example_env_def)
  have c: "example_config ''loras'' = Some example_records"
    by (simp add: example_config_def)
  have r: "resolve_url example_records ''ok'' = Some ''https://civitai.com/ok''"
    by (simp add: example_records_def)
  have g: "gets example_world = []"
    by (simp add: example_world_def)
  have ne: "''explicit'' \<noteq> []" "''https://civitai.com/ok'' \<noteq> []"
    by simp_all
  note t = bearer_token_choice [where environment = "environ example_env" and e = example_env
      and NODE_CONFIG = example_config and records = example_records and w = example_world
      and load_lora = example_load_lora and model = "10::nat" and clip = "20::nat"
      and strength_model = "1::nat" and strength_clip = "1::nat" and lora_name = "''ok''"
      and download_chunks = "Some 4"]
  have 1: "select_api_key (environ example_env) ''https://civitai.com/ok'' (Some ''explicit'') =
       Some ''explicit''"
    "auth_headers (select_api_key (environ example_env) ''https://civitai.com/ok''
          (Some ''explicit'')) = Some [(''Authorization'', ''Bearer '' @ ''explicit'')]"
    using t [where k = "''explicit''" and u = "''https://civitai.com/ok''" and api_key = None
        and t = "[]"] ne by blast+
  have 2: "select_api_key (environ example_env) ''https://civitai.com/ok'' None = Some ''envtok''"
    using t [where api_key = None and u = "''https://civitai.com/ok''" and k = "[]"
        and t = "[]"] s e by simp
  have 3: "select_api_key (environ example_env) ''https://huggingface.co/bare'' None = None"
    using t [where api_key = None and u = "''https://huggingface.co/bare''" and k = "[]"
        and t = "[]"] s e by simp
  have 4: "auth_headers (select_api_key (environ example_env) ''https://huggingface.co/bare'' None) =
       None"
    using t [where api_key = None and u = "''https://huggingface.co/bare''" and k = "[]"
        and t = "[]"] 3 by simp
  have 5: "gets (snd (download_lora example_env example_config example_load_lora example_world 10
        ''ok'' 1 1 20 (Some ''explicit'') (Some 4))) =
       gets example_world @ [(''https://civitai.com/ok'',
         auth_headers (select_api_key (environ example_env) ''https://civitai.com/ok''
           (Some ''explicit'')))]"
    using t [where api_key = "Some ''explicit''" and u = "''https://civitai.com/ok''"
        and k = "[]" and t = "[]"] d c r ne
    by blast
  have 6: "select_api_key (environ example_env) ''http://civitai.com/ok'' None = None"
    using t [where api_key = None and u = "''http://civitai.com/ok''" and k = "[]"
        and t = "[]"] o by blast
  show ?thesis using 1 2 3 4 5 6 o s r g by simp
qed

text \<open>
  C6. When the configuration file is missing (\<open>FileNotFoundError\<close>) or its JSON is
  malformed (\<open>JSONDecodeError\<close>), \<open>load_config\<close> returns the built-in default table
  and raises nothing; the failure is logged, as a warning in the first case and as an
  error in the second. The default table has the single key \<open>loras\<close> with the two
  placeholder records \<open>Lora n1\<close> and \<open>Lora n2\<close>, both with the URL \<open>not_valid_url\<close>.
\<close>

theorem load_config_fallback:
  "load_config config_filename config_path (Inl (FileNotFoundError m)) =
       (Returned default_config,
        [(WARNING, ''Configuration file '' @ quoted config_path @
                   '' not found. Using default fallback configuration.'')])
   \<and> load_config config_filename config_path (Inl (JSONDecodeError m)) =
       (Returned default_config,
        [(ERROR, ''Error decoding JSON from '' @ quoted config_path @
                 ''. Using default fallback configuration.'')])
   \<and> dom default_config = {''loras''}
   \<and> map_option (map name) (default_config ''loras'') = Some [''Lora n1'', ''Lora n2'']
   \<and> map_option (map url) (default_config ''loras'') =
       Some [''not_valid_url'', ''not_valid_url'']"
  by (simp add: load_config_def default_config_def)

text \<open>
  C7. A response whose \<open>Content-Disposition\<close> header is
  \<open>attachment; filename="foo.safetensors"\<close> gives the file name \<open>foo.safetensors\<close>
  exactly, without the quotes and without surrounding whitespace.
\<close>

theorem content_disposition_filename:
  "headers resp ''Content-Disposition'' =
       Some (''attachment; filename='' @ [dquote] @ ''foo.safetensors'' @ [dquote])
     \<Longrightarrow> derive_filename (headers resp ''Content-Disposition'') = Some ''foo.safetensors''"
  by (simp add: derive_filename_def match_filename_def startswith_def py_strip_def
        py_isspace_def dquote_def)

theorem content_disposition_filename_witness:
  "headers example_ok_response ''Content-Disposition'' =
       Some (''attachment; filename='' @ [dquote] @ ''foo.safetensors'' @ [dquote])
   \<and> derive_filename (headers example_ok_response ''Content-Disposition'') =
       Some ''foo.safetensors''"
proof -
  have h: "headers example_ok_response ''Content-Disposition'' =
       Some (''attachment; filename='' @ [dquote] @ ''foo.safetensors'' @ [dquote])"
    by (simp add: example_ok_response_def)
  show ?thesis using h content_disposition_filename [OF h] by simp
qed

text \<open>
  C8. When the response has no \<open>Content-Disposition\<close> header, or has one that the
  pattern does not match, the file name stays \<open>None\<close>. There is no test for that:
  the code goes on to \<open>os.path.join\<close> with the missing name, which raises
  \<open>TypeError\<close> outside the \<open>try\<close> statement. So the call does not end in the
  fallback that returns the model and clip unchanged; the GET has been sent and no
  file is written.
\<close>

theorem missing_filename_not_handled:
  assumes "makedirs_error e (path_join e (models_dir e) ''loras'') = None"
    and "NODE_CONFIG ''loras'' = Some records"
    and "resolve_url records lora_name = Some u" and "u \<noteq> []"
    and "http_get e (gets w) u (auth_headers (select_api_key (environ e) u api_key)) = Inr resp"
    and "raise_for_status resp = None"
    and "headers resp ''Content-Disposition'' = None
       \<or> (\<exists>cd. headers resp ''Content-Disposition'' = Some cd \<and> re_search_filename cd = None)"
  shows "derive_filename (headers resp ''Content-Disposition'') = None
     \<and> fst (download_lora e NODE_CONFIG load_lora w model lora_name strength_model
                strength_clip clip api_key download_chunks) =
           Raised (TypeError ''expected str, bytes or os.PathLike object, not NoneType'')
     \<and> fst (download_lora e NODE_CONFIG load_lora w model lora_name strength_model
                strength_clip clip api_key download_chunks) \<noteq> Returned (model, clip)
     \<and> files (snd (download_lora e NODE_CONFIG load_lora w model lora_name strength_model
                strength_clip clip api_key download_chunks)) = files w"
proof -
  have unset: "derive_filename (headers resp ''Content-Disposition'') = None"
    using assms(7) by (auto simp: derive_filename_def)
  show ?thesis
    using unset
      lora_no_filename [where e = e and NODE_CONFIG = NODE_CONFIG and records = records
        and nm = lora_name and u = u and w = w and k = api_key and resp = resp
        and ld = load_lora and m = model and ?s1.0 = strength_model and ?s2.0 = strength_clip
        and c = clip and dc = download_chunks, OF assms(1-6) unset]
    by (simp add: log_api_key_fields)
qed

theorem missing_filename_not_handled_witness:
  "resolve_url example_records ''bare'' = Some ''https://huggingface.co/bare''
   \<and> http_get example_env (gets example_world) ''https://huggingface.co/bare''
        (auth_headers (select_api_key (environ example_env) ''https://huggingface.co/bare'' None)) =
       Inr example_bare_response
   \<and> headers example_bare_response ''Content-Disposition'' = None
   \<and> fst (download_lora example_env example_config example_load_lora example_world 10 ''bare''
          1 1 20 None (Some 4)) =
       Raised (TypeError ''expected str, bytes or os.PathLike object, not NoneType'')"
proof -
  have d: "makedirs_error example_env (path_join example_env (models_dir example_env) ''loras'') = None"
    by (simp add: example_env_def)
  have c: "example_config ''loras'' = Some example_records"
    by (simp add: example_config_def)
  have r: "resolve_url example_records ''bare'' = Some ''https://huggingface.co/bare''"
    by (simp add: example_records_def)
  have n: "''https://huggingface.co/bare'' \<noteq> []"
    by simp
  have g: "http_get example_env (gets example_world) ''https://huggingface.co/bare''
        (auth_headers (select_api_key (environ example_env) ''https://huggingface.co/bare'' None)) =
       Inr example_bare_response"
    by (simp add: example_env_def example_server_def)
  have s: "raise_for_status example_bare_response = None"
    by (simp add: raise_for_status_def example_bare_response_def)
  have h: "headers example_bare_response ''Content-Disposition'' = None"
    by (simp add: example_bare_response_def)
  then have h': "headers example_bare_response ''Content-Disposition'' = None
       \<or> (\<exists>cd. headers example_bare_response ''Content-Disposition'' = Some cd
             \<and> re_search_filename cd = None)"
    by blast
  show ?thesis
    using r g h
      missing_filename_not_handled [where e = example_env and NODE_CONFIG = example_config
        and records = example_records and lora_name = "''bare''"
        and u = "''https://huggingface.co/bare''" and w = example_world and api_key = None
        and resp = example_bare_response and load_lora = example_load_lora
        and model = "10::nat" and clip = "20::nat" and strength_model = "1::nat"
        and strength_clip = "1::nat" and download_chunks = "Some 4",
        OF d c r n g s h']
    by simp
qed



text \<open>
  C10, as the claim states it, fails in its last part: under the default table the
  LoRA loader does not fall back to returning its inputs for the names the table
  offers. \<open>Lora n1\<close> resolves to \<open>not_valid_url\<close>, \<open>requests.get\<close> raises on a URL
  without a scheme, and the call is outside the \<open>try\<close> statement, so the exception
  leaves \<open>download_lora\<close>.
\<close>

theorem lora_fallback_request_raises:
  "fst (download_lora example_env default_config example_load_lora example_world 10
          ''Lora n1'' 1 1 20 None (Some 4)) =
     Raised (RequestException (''Invalid URL '' @ quoted ''not_valid_url'' @
                               '': No scheme supplied.''))"
  by (simp add: download_lora_def makedirs_def requests_get_def default_config_def
        select_api_key_def py_or_def auth_headers_def log_api_key_def log_msg_def
        startswith_def Let_def example_defs)

text \<open>
  C10, amended. Under the built-in default table every invocation of the UNET loader
  and of the checkpoint loader raises: when the models directory is made, what is
  raised is the \<open>KeyError\<close> of the table lookup, since the table has no key
  \<open>diffusion_models\<close> and no key \<open>checkpoints\<close> (otherwise it is the exception of
  \<open>os.makedirs\<close>). The lookup of the LoRA loader succeeds: for a name other than the
  two placeholders it logs an error and returns the model and clip unchanged; for a
  placeholder name it goes on to call \<open>requests.get\<close> on \<open>not_valid_url\<close>, and an
  exception raised by that call leaves \<open>download_lora\<close>.
\<close>

theorem fallback_config_lookup:
  "fst (download_unet e default_config load_unet w unet_name weight_dtype api_key
          download_chunks) =
     Raised (case makedirs_error e (path_join e (models_dir e) ''diffusion_models'') of
               Some x \<Rightarrow> x | None \<Rightarrow> KeyError (quoted ''diffusion_models''))
   \<and> fst (download_checkpoint e default_config load_checkpoint w ckpt_name api_key
          download_chunks) =
     Raised (case makedirs_error e (path_join e (models_dir e) ''checkpoints'') of
               Some x \<Rightarrow> x | None \<Rightarrow> KeyError (quoted ''checkpoints''))
   \<and> (makedirs_error e (path_join e (models_dir e) ''loras'') = None \<longrightarrow>
        (lora_name \<noteq> ''Lora n1'' \<and> lora_name \<noteq> ''Lora n2'' \<longrightarrow>
           download_lora e default_config load_lora w model lora_name strength_model
             strength_clip clip api_key download_chunks =
           (Returned (model, clip),
            log_msg ERROR (''Lora URL not found for name: '' @ lora_name)
              (w\<lparr>dirs := insert (path_join e (models_dir e) ''loras'') (dirs w)\<rparr>)))
      \<and> (lora_name = ''Lora n1'' \<or> lora_name = ''Lora n2'' \<longrightarrow>
           gets (snd (download_lora e default_config load_lora w model lora_name
                        strength_model strength_clip clip api_key download_chunks)) =
             gets w @ [(''not_valid_url'', auth_headers api_key)]
         \<and> (http_get e (gets w) ''not_valid_url'' (auth_headers api_key) = Inl x \<longrightarrow>
              fst (download_lora e default_config load_lora w model lora_name strength_model
                     strength_clip clip api_key download_chunks) = Raised x)))"
proof -
  let ?records = "[\<lparr>name = ''Lora n1'', url = ''not_valid_url''\<rparr>,
                   \<lparr>name = ''Lora n2'', url = ''not_valid_url''\<rparr>]"
  have 1: "fst (download_unet e default_config load_unet w unet_name weight_dtype api_key
          download_chunks) =
     Raised (case makedirs_error e (path_join e (models_dir e) ''diffusion_models'') of
               Some x \<Rightarrow> x | None \<Rightarrow> KeyError (quoted ''diffusion_models''))"
    by (simp add: unet_fallback split: option.splits)
  have 2: "fst (download_checkpoint e default_config load_checkpoint w ckpt_name api_key
          download_chunks) =
     Raised (case makedirs_error e (path_join e (models_dir e) ''checkpoints'') of
               Some x \<Rightarrow> x | None \<Rightarrow> KeyError (quoted ''checkpoints''))"
    by (simp add: checkpoint_fallback split: option.splits)
  have 3: "download_lora e default_config load_lora w model lora_name strength_model
             strength_clip clip api_key download_chunks =
           (Returned (model, clip),
            log_msg ERROR (''Lora URL not found for name: '' @ lora_name)
              (w\<lparr>dirs := insert (path_join e (models_dir e) ''loras'') (dirs w)\<rparr>))"
    if "makedirs_error e (path_join e (models_dir e) ''loras'') = None"
      and "lora_name \<noteq> ''Lora n1''" and "lora_name \<noteq> ''Lora n2''"
  proof -
    have "lora_name \<notin> name ` set ?records"
      using that(2,3) by auto
    then show ?thesis
      using lora_absent [where e = e and NODE_CONFIG = default_config and records = ?records
          and nm = lora_name and ld = load_lora and w = w and m = model
          and ?s1.0 = strength_model and ?s2.0 = strength_clip and c = clip and k = api_key
          and dc = download_chunks, OF that(1) default_config_loras]
      by blast
  qed
  have r: "resolve_url ?records lora_name = Some ''not_valid_url''"
    if "lora_name = ''Lora n1'' \<or> lora_name = ''Lora n2''"
    using that by auto
  have n: "''not_valid_url'' \<noteq> []"
    by simp
  have 4: "gets (snd (download_lora e default_config load_lora w model lora_name
                        strength_model strength_clip clip api_key download_chunks)) =
             gets w @ [(''not_valid_url'', auth_headers api_key)]"
    if "makedirs_error e (path_join e (models_dir e) ''loras'') = None"
      and "lora_name = ''Lora n1'' \<or> lora_name = ''Lora n2''"
    using lora_gets [where e = e and NODE_CONFIG = default_config and records = ?records
          and nm = lora_name and u = "''not_valid_url''" and ld = load_lora and w = w
          and m = model and ?s1.0 = strength_model and ?s2.0 = strength_clip and c = clip
          and k = api_key and dc = download_chunks,
          OF that(1) default_config_loras r [OF that(2)] n]
    by (simp add: select_api_key_other_host)
  have 5: "fst (download_lora e default_config load_lora w model lora_name strength_model
                     strength_clip clip api_key download_chunks) = Raised x"
    if "makedirs_error e (path_join e (models_dir e) ''loras'') = None"
      and "lora_name = ''Lora n1'' \<or> lora_name = ''Lora n2''"
      and "http_get e (gets w) ''not_valid_url'' (auth_headers api_key) = Inl x"
  proof -
    have "http_get e (gets w) ''not_valid_url''
            (auth_headers (select_api_key (environ e) ''not_valid_url'' api_key)) = Inl x"
      using that(3) by (simp add: select_api_key_other_host)
    then show ?thesis
      using lora_get_raises [where e = e and NODE_CONFIG = default_config
          and records = ?records and nm = lora_name and u = "''not_valid_url''"
          and ld = load_lora and w = w and m = model and ?s1.0 = strength_model
          and ?s2.0 = strength_clip and c = clip and k = api_key and dc = download_chunks
          and x = x, OF that(1) default_config_loras r [OF that(2)] n]
      by simp
  qed
  from 1 2 3 4 5 show ?thesis by blast
qed

theorem fallback_config_lookup_witness:
  "fst (download_unet example_env default_config example_load_unet example_world ''ok''
          ''default'' None (Some 4)) = Raised (KeyError (quoted ''diffusion_models''))
   \<and> fst (download_checkpoint example_env default_config example_load_checkpoint
          example_world ''ok'' None (Some 4)) = Raised (KeyError (quoted ''checkpoints''))
   \<and> makedirs_error example_env (path_join example_env (models_dir example_env) ''loras'') = None
   \<and> http_get example_env (gets example_world) ''not_valid_url'' (auth_headers None) =
        Inl (RequestException (''Invalid URL '' @ quoted ''not_valid_url'' @
                               '': No scheme supplied.''))
   \<and> gets (snd (download_lora example_env default_config example_load_lora example_world 10
          ''Lora n1'' 1 1 20 None (Some 4))) = [(''not_valid_url'', None)]
   \<and> fst (download_lora example_env default_config example_load_lora example_world 10
          ''Lora n1'' 1 1 20 None (Some 4)) =
        Raised (RequestException (''Invalid URL '' @ quoted ''not_valid_url'' @
                                  '': No scheme supplied.''))
   \<and> fst (download_lora example_env default_config example_load_lora example_world 10
          ''ok'' 1 1 20 None (Some 4)) = Returned (10, 20)"
proof -
  have d: "makedirs_error example_env (path_join example_env (models_dir example_env) ''loras'') = None"
    "makedirs_error example_env
       (path_join example_env (models_dir example_env) ''diffusion_models'') = None"
    "makedirs_error example_env
       (path_join example_env (models_dir example_env) ''checkpoints'') = None"
    by (simp_all add: example_env_def)
  have g: "http_get example_env (gets example_world) ''not_valid_url'' (auth_headers None) =
        Inl (RequestException (''Invalid URL '' @ quoted ''not_valid_url'' @
                               '': No scheme supplied.''))"
    by (simp add: example_env_def example_server_def)
  have a: "auth_headers None = None" "gets example_world = []"
    by (simp_all add: auth_headers_def example_world_def)
  have ne: "''ok'' \<noteq> ''Lora n1''" "''ok'' \<noteq> ''Lora n2''"
    by simp_all
  note t = fallback_config_lookup [where e = example_env and w = example_world
      and load_unet = example_load_unet and load_checkpoint = example_load_checkpoint
      and load_lora = example_load_lora and unet_name = "''ok''" and ckpt_name = "''ok''"
      and weight_dtype = "''default''" and api_key = None and download_chunks = "Some 4"
      and model = "10::nat" and clip = "20::nat" and strength_model = "1::nat"
      and strength_clip = "1::nat"
      and x = "RequestException (''Invalid URL '' @ quoted ''not_valid_url'' @
                                 '': No scheme supplied.'')"]
  note t1 = t [where lora_name = "''Lora n1''"]
  note t2 = t [where lora_name = "''ok''"]
  have 1: "fst (download_unet example_env default_config example_load_unet example_world ''ok''
          ''default'' None (Some 4)) = Raised (KeyError (quoted ''diffusion_models''))"
    using t1 d by simp
  have 2: "fst (download_checkpoint example_env default_config example_load_checkpoint
          example_world ''ok'' None (Some 4)) = Raised (KeyError (quoted ''checkpoints''))"
    using t1 d by simp
  have 3: "gets (snd (download_lora example_env default_config example_load_lora example_world
          10 ''Lora n1'' 1 1 20 None (Some 4))) = [(''not_valid_url'', None)]"
    using t1 d(1) a by simp
  have 4: "fst (download_lora example_env default_config example_load_lora example_world 10
          ''Lora n1'' 1 1 20 None (Some 4)) =
        Raised (RequestException (''Invalid URL '' @ quoted ''not_valid_url'' @
                                  '': No scheme supplied.''))"
    using t1 d(1) g by blast
  have 5: "fst (download_lora example_env default_config example_load_lora example_world 10
          ''ok'' 1 1 20 None (Some 4)) = Returned (10, 20)"
    using t2 d(1) ne by simp
  from 1 2 3 4 5 d(1) g show ?thesis by blast
qed

end
